theory Spec2Isabelle
  imports Complex_Main
begin

section \<open>JavaScript values\<close>

text \<open>
  The values that flow through \<open>script.js\<close>: what \<open>response.json()\<close> and
  \<open>response.text()\<close> produce, what \<open>localStorage.getItem\<close> returns, and the
  \<open>undefined\<close> of a missing property. An object is the list of its own properties,
  as \<open>JSON.parse\<close> builds it (one entry for each key). A number is the value of the
  parsed literal; only whether it is zero matters to the script. A string is the list of
  its code units, each an 8-bit character.
\<close>

datatype js_value =
    JUndefined
  | JNull
  | JBool bool
  | JNum rat
  | JStr string
  | JArr "js_value list"
  | JObj "(string \<times> js_value) list"

text \<open>ToBoolean: what \<open>!v\<close>, \<open>v && e\<close>, \<open>v || e\<close> and \<open>v ? a : b\<close> test.\<close>

fun truthy :: "js_value \<Rightarrow> bool" where
  "truthy JUndefined = False"
| "truthy JNull = False"
| "truthy (JBool b) = b"
| "truthy (JNum n) = (n \<noteq> 0)"
| "truthy (JStr s) = (s \<noteq> [])"
| "truthy (JArr vs) = True"
| "truthy (JObj kvs) = True"

text \<open>
  The property read \<open>v.name\<close>, for the four names the script reads (\<open>detail\<close>,
  \<open>message\<close>, \<open>access_token\<close>, \<open>refresh_token\<close>): an own property of an object,
  \<open>undefined\<close> on every other value, since no prototype defines these names. The script
  reads a property only of a value it has tested to be truthy, so the read of
  \<open>null\<close> or \<open>undefined\<close>, which would throw, is never evaluated.
\<close>

fun js_get :: "js_value \<Rightarrow> string \<Rightarrow> js_value" where
  "js_get (JObj kvs) name = (case map_of kvs name of Some v \<Rightarrow> v | None \<Rightarrow> JUndefined)"
| "js_get v name = JUndefined"

subsection \<open>Strings\<close>

text \<open>\<open>s.includes(sub)\<close>: \<open>sub\<close> occurs in \<open>s\<close> as a contiguous run.\<close>

fun js_includes :: "string \<Rightarrow> string \<Rightarrow> bool" where
  "js_includes [] sub = (sub = [])"
| "js_includes (c # s) sub = (take (length sub) (c # s) = sub \<or> js_includes s sub)"

text \<open>The white space and line terminators that \<open>trim\<close> removes, among the 8-bit characters.\<close>

definition is_white :: "char \<Rightarrow> bool" where
  "is_white c = ((of_char c :: nat) \<in> {9, 10, 11, 12, 13, 32, 160})"

definition js_trim :: "string \<Rightarrow> string" where
  "js_trim s = rev (dropWhile is_white (rev (dropWhile is_white s)))"

text \<open>The decimal digits of a status code, as the template literal prints it.\<close>

definition digit_char :: "nat \<Rightarrow> char" where
  "digit_char d = char_of (48 + d)"

fun show_nat :: "nat \<Rightarrow> string" where
  "show_nat n = (if n < 10 then [digit_char n] else show_nat (n div 10) @ [digit_char (n mod 10)])"

declare show_nat.simps [simp del]

text \<open>Header names are compared without regard to the case of ASCII letters.\<close>

definition lower :: "char \<Rightarrow> char" where
  "lower c = (let n = (of_char c :: nat) in if 65 \<le> n \<and> n \<le> 90 then char_of (n + 32) else c)"

definition same_name :: "string \<Rightarrow> string \<Rightarrow> bool" where
  "same_name a b = (map lower a = map lower b)"

section \<open>The platform: Headers, fetch, localStorage\<close>

text \<open>
  What an exception or a rejected promise carries: \<open>Error m\<close> is \<open>new Error(m)\<close>,
  \<open>SyntaxError\<close> the rejection of \<open>json()\<close>, \<open>TypeError\<close> the rejection of \<open>fetch\<close>
  and what \<open>Headers\<close> throws for a name or a value that is not legal.
\<close>

datatype js_error = Error string | SyntaxError | TypeError

text \<open>
  A \<open>Headers\<close> object is the list of its name/value pairs. Appending and setting
  normalise the value (the HTTP white space at both ends is stripped: tab, line feed,
  carriage return, space) and throw \<open>TypeError\<close> unless the name is a token and the
  normalised value holds no NUL, line feed or carriage return. \<open>options.headers\<close> is
  the list of the pairs of the initialiser, or absent; the constructor appends them in turn.
\<close>

type_synonym headers = "(string \<times> string) list"

definition is_http_space :: "char \<Rightarrow> bool" where
  "is_http_space c = ((of_char c :: nat) \<in> {9, 10, 13, 32})"

definition normalize_value :: "string \<Rightarrow> string" where
  "normalize_value v = rev (dropWhile is_http_space (rev (dropWhile is_http_space v)))"

definition legal_value :: "string \<Rightarrow> bool" where
  "legal_value v = list_all (\<lambda>c. (of_char c :: nat) \<notin> {0, 10, 13}) v"

definition is_token_char :: "char \<Rightarrow> bool" where
  "is_token_char c =
     (let n = (of_char c :: nat)
      in (48 \<le> n \<and> n \<le> 57) \<or> (65 \<le> n \<and> n \<le> 90) \<or> (97 \<le> n \<and> n \<le> 122)
         \<or> n \<in> {33, 35, 36, 37, 38, 39, 42, 43, 45, 46, 94, 95, 96, 124, 126})"

definition legal_name :: "string \<Rightarrow> bool" where
  "legal_name name = (name \<noteq> [] \<and> list_all is_token_char name)"

definition headers_append :: "headers \<Rightarrow> string \<Rightarrow> string \<Rightarrow> js_error + headers" where
  "headers_append hs name v =
     (if legal_name name \<and> legal_value (normalize_value v)
      then Inr (hs @ [(name, normalize_value v)])
      else Inl TypeError)"

fun Headers_fill :: "headers \<Rightarrow> (string \<times> string) list \<Rightarrow> js_error + headers" where
  "Headers_fill hs [] = Inr hs"
| "Headers_fill hs (kv # kvs) =
     (case headers_append hs (fst kv) (snd kv) of
        Inl e \<Rightarrow> Inl e
      | Inr hs' \<Rightarrow> Headers_fill hs' kvs)"

definition Headers_new :: "(string \<times> string) list option \<Rightarrow> js_error + headers" where
  "Headers_new init = (case init of None \<Rightarrow> Inr [] | Some kvs \<Rightarrow> Headers_fill [] kvs)"

fun join_values :: "string list \<Rightarrow> string" where
  "join_values [] = []"
| "join_values [v] = v"
| "join_values (v # vs) = v @ '', '' @ join_values vs"

definition headers_get :: "headers \<Rightarrow> string \<Rightarrow> string option" where
  "headers_get hs name =
     (case filter (\<lambda>kv. same_name (fst kv) name) hs of
        [] \<Rightarrow> None
      | kvs \<Rightarrow> Some (join_values (map snd kvs)))"

definition headers_has :: "headers \<Rightarrow> string \<Rightarrow> bool" where
  "headers_has hs name = (filter (\<lambda>kv. same_name (fst kv) name) hs \<noteq> [])"

definition headers_set :: "headers \<Rightarrow> string \<Rightarrow> string \<Rightarrow> js_error + headers" where
  "headers_set hs name v =
     (if legal_name name \<and> legal_value (normalize_value v)
      then Inr (filter (\<lambda>kv. \<not> same_name (fst kv) name) hs @ [(name, normalize_value v)])
      else Inl TypeError)"

datatype js_body =
    Body_undefined
  | Body_null
  | Body_FormData "(string \<times> string) list"
  | Body_text string

record request =
  req_url :: string
  req_method :: "string option"
  req_headers :: headers
  req_body :: js_body

text \<open>
  A response as the script sees it: the status, the headers, and what \<open>text()\<close> and
  \<open>json()\<close> resolve to (\<open>None\<close>: the body is no JSON text and \<open>json()\<close> rejects).
  The body has arrived in full when \<open>fetch\<close> resolves. \<open>response.ok\<close> is the test of
  the status for the range 200 to 299.
\<close>

record response =
  status :: nat
  resp_headers :: headers
  body_text :: string
  body_json :: "js_value option"

definition ok :: "response \<Rightarrow> bool" where
  "ok r = (200 \<le> status r \<and> status r \<le> 299)"

datatype fetch_outcome = Resolves response | Rejects

text \<open>
  The platform is a parameter: \<open>fetch\<close> answers the \<open>n\<close>-th request of a run (any
  sequence of answers, which may depend on the request) by a response or by a rejection
  (a request that \<open>fetch\<close> cannot send is one it rejects),
  and \<open>to_string\<close> is the conversion to a string of a value that is not a string
  (what \<open>localStorage.setItem\<close>, \<open>new Error\<close> and a template literal apply to it).
\<close>

record platform =
  fetch :: "nat \<Rightarrow> request \<Rightarrow> fetch_outcome"
  to_string :: "js_value \<Rightarrow> string"

definition js_string :: "platform \<Rightarrow> js_value \<Rightarrow> string" where
  "js_string plat v = (case v of JStr s \<Rightarrow> s | _ \<Rightarrow> to_string plat v)"

text \<open>
  The state of a run: the storage of the page, and the log of what the run has done
  (each call of \<open>fetch\<close> by \<open>apiFetch\<close> or by \<open>refreshAccessToken\<close>, with the request
  as the script hands it over, and each call of \<open>refreshAccessToken\<close>).
\<close>

datatype event = Api_fetch request | Refresh_called | Refresh_fetch request

record world =
  localStorage :: "string \<rightharpoonup> string"
  trace :: "event list"

fun is_fetch :: "event \<Rightarrow> bool" where
  "is_fetch (Api_fetch r) = True"
| "is_fetch Refresh_called = False"
| "is_fetch (Refresh_fetch r) = True"

fun is_api_fetch :: "event \<Rightarrow> bool" where
  "is_api_fetch (Api_fetch r) = True"
| "is_api_fetch e = False"

fun is_refresh_fetch :: "event \<Rightarrow> bool" where
  "is_refresh_fetch (Refresh_fetch r) = True"
| "is_refresh_fetch e = False"

definition call_fetch :: "platform \<Rightarrow> (request \<Rightarrow> event) \<Rightarrow> request \<Rightarrow> world \<Rightarrow> fetch_outcome \<times> world" where
  "call_fetch plat tag req w =
     (fetch plat (length (filter is_fetch (trace w))) req, w\<lparr>trace := trace w @ [tag req]\<rparr>)"

definition getItem :: "string \<Rightarrow> world \<Rightarrow> js_value" where
  "getItem k w = (case localStorage w k of None \<Rightarrow> JNull | Some s \<Rightarrow> JStr s)"

definition setItem :: "string \<Rightarrow> string \<Rightarrow> world \<Rightarrow> world" where
  "setItem k v w = w\<lparr>localStorage := (localStorage w)(k \<mapsto> v)\<rparr>"

definition removeItem :: "string \<Rightarrow> world \<Rightarrow> world" where
  "removeItem k w = w\<lparr>localStorage := (localStorage w)(k := None)\<rparr>"

text \<open>The events a run has added to the log.\<close>

definition events_since :: "world \<Rightarrow> world \<Rightarrow> event list" where
  "events_since w w' = drop (length (trace w)) (trace w')"

section \<open>script.js: token storage\<close>

definition TOKEN_KEYS_access :: string where
  "TOKEN_KEYS_access = ''access_token''"

definition TOKEN_KEYS_refresh :: string where
  "TOKEN_KEYS_refresh = ''refresh_token''"

definition storeTokens :: "platform \<Rightarrow> js_value \<Rightarrow> world \<Rightarrow> world" where
  "storeTokens plat payload w =
     (if \<not> truthy payload then w
      else
        let w1 = (if truthy (js_get payload ''access_token'')
                  then setItem TOKEN_KEYS_access (js_string plat (js_get payload ''access_token'')) w
                  else w)
        in if truthy (js_get payload ''refresh_token'')
           then setItem TOKEN_KEYS_refresh (js_string plat (js_get payload ''refresh_token'')) w1
           else w1)"

definition clearTokens :: "world \<Rightarrow> world" where
  "clearTokens w = removeItem TOKEN_KEYS_refresh (removeItem TOKEN_KEYS_access w)"

definition getAccessToken :: "world \<Rightarrow> js_value" where
  "getAccessToken w = getItem TOKEN_KEYS_access w"

definition getRefreshToken :: "world \<Rightarrow> js_value" where
  "getRefreshToken w = getItem TOKEN_KEYS_refresh w"

definition refresh_request :: "platform \<Rightarrow> js_value \<Rightarrow> request" where
  "refresh_request plat refreshToken =
     \<lparr>req_url = ''/api/token/refresh'',
      req_method = Some ''POST'',
      req_headers = [(''Authorization'', ''Bearer '' @ js_string plat refreshToken)],
      req_body = Body_undefined\<rparr>"

definition refreshAccessToken :: "platform \<Rightarrow> world \<Rightarrow> (js_error + bool) \<times> world" where
  "refreshAccessToken plat w0 =
     (let w = w0\<lparr>trace := trace w0 @ [Refresh_called]\<rparr>;
          refreshToken = getRefreshToken w
      in if \<not> truthy refreshToken then (Inr False, w)
         else
           (case call_fetch plat Refresh_fetch (refresh_request plat refreshToken) w of
              (Rejects, w1) \<Rightarrow> (Inl TypeError, w1)
            | (Resolves res, w1) \<Rightarrow>
                if \<not> ok res then (Inr False, clearTokens w1)
                else
                  (case body_json res of
                     None \<Rightarrow> (Inl SyntaxError, w1)
                   | Some data \<Rightarrow> (Inr True, storeTokens plat data w1))))"

section \<open>script.js: apiFetch\<close>

record options =
  opt_method :: "string option"
  opt_headers :: "(string \<times> string) list option"
  opt_body :: js_body

text \<open>
  \<open>config\<close>: a field is \<open>None\<close> when the caller leaves it out, and the destructuring
  \<open>{ auth = false, retryOnUnauthorized = true } = config\<close> then takes the default.
\<close>

record config =
  auth :: "bool option"
  retryOnUnauthorized :: "bool option"

definition config_auth :: "config \<Rightarrow> bool" where
  "config_auth cfg = (case auth cfg of None \<Rightarrow> False | Some b \<Rightarrow> b)"

definition config_retryOnUnauthorized :: "config \<Rightarrow> bool" where
  "config_retryOnUnauthorized cfg = (case retryOnUnauthorized cfg of None \<Rightarrow> True | Some b \<Rightarrow> b)"

definition hasBody :: "options \<Rightarrow> bool" where
  "hasBody opts = (opt_body opts \<noteq> Body_undefined \<and> opt_body opts \<noteq> Body_null)"

fun is_FormData :: "js_body \<Rightarrow> bool" where
  "is_FormData (Body_FormData entries) = True"
| "is_FormData b = False"

text \<open>
  The request that \<open>apiFetch\<close> hands to \<open>fetch\<close>, \<open>{...options, headers}\<close>, or
  the \<open>TypeError\<close> that building its headers throws: in the constructor for a pair of
  \<open>options.headers\<close> that is not legal, or in \<open>headers.set('Authorization', ...)\<close> for
  a stored token that is no legal header value.
\<close>

definition apiFetch_request :: "platform \<Rightarrow> string \<Rightarrow> options \<Rightarrow> config \<Rightarrow> world \<Rightarrow> js_error + request" where
  "apiFetch_request plat url opts cfg w =
     (case Headers_new (opt_headers opts) of
        Inl e \<Rightarrow> Inl e
      | Inr headers0 \<Rightarrow>
          (case (if hasBody opts \<and> \<not> is_FormData (opt_body opts)
                    \<and> \<not> headers_has headers0 ''Content-Type''
                 then headers_set headers0 ''Content-Type'' ''application/json''
                 else Inr headers0) of
             Inl e \<Rightarrow> Inl e
           | Inr headers1 \<Rightarrow>
               (case (if config_auth cfg \<and> truthy (getAccessToken w)
                      then headers_set headers1 ''Authorization''
                             (''Bearer '' @ js_string plat (getAccessToken w))
                      else Inr headers1) of
                  Inl e \<Rightarrow> Inl e
                | Inr headers2 \<Rightarrow>
                    Inr \<lparr>req_url = url, req_method = opt_method opts, req_headers = headers2,
                         req_body = opt_body opts\<rparr>)))"

text \<open>
  The message of the error for a response that is not ok:
  \<^verbatim>\<open>(data && data.detail) || (data && data.message) ||
  (typeof data === 'string' && data.trim() ? data : `Request failed with status ${response.status}`)\<close>
\<close>

definition js_and :: "js_value \<Rightarrow> js_value \<Rightarrow> js_value" where
  "js_and a b = (if truthy a then b else a)"

definition js_or :: "js_value \<Rightarrow> js_value \<Rightarrow> js_value" where
  "js_or a b = (if truthy a then a else b)"

definition status_message :: "response \<Rightarrow> string" where
  "status_message r = ''Request failed with status '' @ show_nat (status r)"

fun text_or_status :: "response \<Rightarrow> js_value \<Rightarrow> js_value" where
  "text_or_status r (JStr s) =
     (if truthy (JStr (js_trim s)) then JStr s else JStr (status_message r))"
| "text_or_status r v = JStr (status_message r)"

definition error_message :: "response \<Rightarrow> js_value \<Rightarrow> js_value" where
  "error_message r data =
     js_or (js_and data (js_get data ''detail''))
       (js_or (js_and data (js_get data ''message'')) (text_or_status r data))"

text \<open>\<^verbatim>\<open>response.headers.get('content-type') || ''\<close> and the test on it.\<close>

definition contentType :: "response \<Rightarrow> string" where
  "contentType r =
     (case headers_get (resp_headers r) ''content-type'' of None \<Rightarrow> [] | Some s \<Rightarrow> s)"

definition isJson :: "response \<Rightarrow> bool" where
  "isJson r = js_includes (contentType r) ''application/json''"

text \<open>
  \<^verbatim>\<open>const data = isJson ? await response.json() : await response.text()\<close>: the
  value, or the rejection of \<open>json()\<close> on a body that is no JSON text.
\<close>

definition response_data :: "response \<Rightarrow> js_error + js_value" where
  "response_data r =
     (if isJson r
      then (case body_json r of None \<Rightarrow> Inl SyntaxError | Some v \<Rightarrow> Inr v)
      else Inr (JStr (body_text r)))"

text \<open>
  What \<open>apiFetch\<close> does with the response it settles on (from the test for status 204
  to the end of the function): the value it returns or the error it throws.
\<close>

definition apiFetch_result :: "platform \<Rightarrow> response \<Rightarrow> js_error + js_value" where
  "apiFetch_result plat r =
     (if status r = 204 then Inr JNull
      else
        (case response_data r of
           Inl e \<Rightarrow> Inl e
         | Inr data \<Rightarrow>
             if \<not> ok r then Inl (Error (js_string plat (error_message r data)))
             else Inr data))"

text \<open>What building the request adds to the log once \<open>fetch\<close> is called with it.\<close>

fun sent :: "js_error + request \<Rightarrow> event list" where
  "sent (Inl e) = []"
| "sent (Inr req) = [Api_fetch req]"

function apiFetch :: "platform \<Rightarrow> string \<Rightarrow> options \<Rightarrow> config \<Rightarrow> world \<Rightarrow> (js_error + js_value) \<times> world" where
  "apiFetch plat url opts cfg w =
     (case apiFetch_request plat url opts cfg w of
        Inl e \<Rightarrow> (Inl e, w)
      | Inr req \<Rightarrow>
          (case call_fetch plat Api_fetch req w of
             (Rejects, w1) \<Rightarrow> (Inl TypeError, w1)
           | (Resolves r, w1) \<Rightarrow>
               if status r = 401 \<and> config_auth cfg \<and> config_retryOnUnauthorized cfg
               then
                 (case refreshAccessToken plat w1 of
                    (Inl e, w2) \<Rightarrow> (Inl e, w2)
                  | (Inr refreshed, w2) \<Rightarrow>
                      if refreshed
                      then apiFetch plat url opts
                             \<lparr>auth = Some (config_auth cfg), retryOnUnauthorized = Some False\<rparr> w2
                      else (apiFetch_result plat r, w2))
               else (apiFetch_result plat r, w1)))"
  by pat_completeness auto
termination
  by (relation "measure (\<lambda>(plat, url, opts, cfg, w). if config_retryOnUnauthorized cfg then 1 else 0)")
     (auto simp: config_retryOnUnauthorized_def)

declare apiFetch.simps [simp del]

text \<open>
  Names for the parts of one call that the properties speak of: the answer of \<open>fetch\<close>
  to the request of the call (or the error thrown before any request), the state after
  that request, and the test that guards the refresh
  (\<^verbatim>\<open>response.status === 401 && auth && retryOnUnauthorized\<close>).
\<close>

definition first_outcome :: "platform \<Rightarrow> string \<Rightarrow> options \<Rightarrow> config \<Rightarrow> world \<Rightarrow> js_error + fetch_outcome" where
  "first_outcome plat url opts cfg w =
     (case apiFetch_request plat url opts cfg w of
        Inl e \<Rightarrow> Inl e
      | Inr req \<Rightarrow> Inr (fst (call_fetch plat Api_fetch req w)))"

definition after_first_fetch :: "platform \<Rightarrow> string \<Rightarrow> options \<Rightarrow> config \<Rightarrow> world \<Rightarrow> world" where
  "after_first_fetch plat url opts cfg w =
     (case apiFetch_request plat url opts cfg w of
        Inl e \<Rightarrow> w
      | Inr req \<Rightarrow> snd (call_fetch plat Api_fetch req w))"

definition enters_refresh_path :: "platform \<Rightarrow> string \<Rightarrow> options \<Rightarrow> config \<Rightarrow> world \<Rightarrow> bool" where
  "enters_refresh_path plat url opts cfg w =
     (case first_outcome plat url opts cfg w of
        Inr (Resolves r) \<Rightarrow> status r = 401 \<and> config_auth cfg \<and> config_retryOnUnauthorized cfg
      | _ \<Rightarrow> False)"

section \<open>The assessment scoring service\<close>

text \<open>
  Modelled from the spec: the scoring function \<open>score(definition, responses)\<close> of the
  backend (\<open>backend/app.py\<close>), which is not among the sources; only the page that
  posts the responses and prints \<open>score\<close>, \<open>max_score\<close> and \<open>average\<close> is. The
  definitions follow section 4.1 of the specification: the two validations, the total,
  the maximum, the average as a fraction, and the first band whose inclusive range
  contains the total. The rounding of the average for display is left open by the
  specification and is not modelled. For an assessment with no question the quotient
  \<open>total / len(questions)\<close> has no value: the division fails, before a band is looked
  for, with an error that the specification does not name (\<open>DivisionByZero\<close> here).
\<close>

record scale =
  scale_min :: int
  scale_max :: int
  scale_labels :: "(int \<times> string) list"

record band =
  band_low :: int
  band_high :: int
  band_interpretation :: string
  band_guidance :: string

record assessment =
  assessment_id :: string
  assessment_name :: string
  questions :: "string list"
  assessment_scale :: scale
  scoring_logic :: string
  bands :: "band list"

record score_result =
  total :: int
  max_score :: int
  average :: rat
  result_interpretation :: string
  result_guidance :: string

datatype score_error = ValidationError | ConfigurationError | DivisionByZero

definition in_scale :: "scale \<Rightarrow> int \<Rightarrow> bool" where
  "in_scale sc x = (scale_min sc \<le> x \<and> x \<le> scale_max sc)"

definition in_band :: "int \<Rightarrow> band \<Rightarrow> bool" where
  "in_band t b = (band_low b \<le> t \<and> t \<le> band_high b)"

definition score :: "assessment \<Rightarrow> int list \<Rightarrow> score_error + score_result" where
  "score d responses =
     (if length responses \<noteq> length (questions d) then Inl ValidationError
      else if \<not> list_all (in_scale (assessment_scale d)) responses then Inl ValidationError
      else if questions d = [] then Inl DivisionByZero
      else
        let t = sum_list responses;
            m = int (length (questions d)) * scale_max (assessment_scale d)
        in case find (in_band t) (bands d) of
             None \<Rightarrow> Inl ConfigurationError
           | Some b \<Rightarrow>
               Inr \<lparr>total = t, max_score = m,
                    average = of_int t / of_nat (length (questions d)),
                    result_interpretation = band_interpretation b,
                    result_guidance = band_guidance b\<rparr>)"

section \<open>Concrete runs\<close>

text \<open>
  Responses, platforms, stored states and calls on which the properties below are
  evaluated. \<open>answers rs\<close> is the platform whose \<open>n\<close>-th request is answered by the
  \<open>n\<close>-th response of \<open>rs\<close> and rejected after the last.
\<close>

definition resp_401 :: response where
  "resp_401 = \<lparr>status = 401, resp_headers = [(''content-type'', ''application/json'')],
     body_text = ''{\"detail\":\"Token expired\"}'',
     body_json = Some (JObj [(''detail'', JStr ''Token expired'')])\<rparr>"

definition resp_tokens :: response where
  "resp_tokens = \<lparr>status = 200, resp_headers = [(''content-type'', ''application/json'')],
     body_text = ''{\"access_token\":\"B\"}'',
     body_json = Some (JObj [(''access_token'', JStr ''B'')])\<rparr>"

definition resp_ok :: response where
  "resp_ok = \<lparr>status = 200, resp_headers = [(''content-type'', ''application/json'')],
     body_text = ''{\"message\":\"Score submitted.\"}'',
     body_json = Some (JObj [(''message'', JStr ''Score submitted.'')])\<rparr>"

text \<open>
  The \<open>to_string\<close> of \<open>answers\<close> is the conversion of a plain object; no run below
  converts a value that is not a string.
\<close>

definition answers :: "response list \<Rightarrow> platform" where
  "answers rs = \<lparr>fetch = (\<lambda>n req. if n < length rs then Resolves (rs ! n) else Rejects),
                  to_string = (\<lambda>v. ''[object Object]'')\<rparr>"

definition logged_in :: world where
  "logged_in = \<lparr>localStorage = [''access_token'' \<mapsto> ''A'', ''refresh_token'' \<mapsto> ''R''], trace = []\<rparr>"

definition post_score :: options where
  "post_score = \<lparr>opt_method = Some ''POST'', opt_headers = None,
     opt_body = Body_text ''{\"assessment_id\":1,\"score\":7}''\<rparr>"

definition with_auth :: config where
  "with_auth = \<lparr>auth = Some True, retryOnUnauthorized = None\<rparr>"

definition resp_no_content :: response where
  "resp_no_content = \<lparr>status = 204, resp_headers = [], body_text = [], body_json = None\<rparr>"

definition no_config :: config where
  "no_config = \<lparr>auth = None, retryOnUnauthorized = None\<rparr>"

definition logged_out :: world where
  "logged_out = \<lparr>localStorage = Map.empty, trace = []\<rparr>"

definition empty_access_token :: world where
  "empty_access_token = \<lparr>localStorage = [''access_token'' \<mapsto> []], trace = []\<rparr>"

definition post_own_authorization :: options where
  "post_own_authorization = \<lparr>opt_method = Some ''POST'',
     opt_headers = Some [(''Authorization'', ''Basic dTpw'')],
     opt_body = Body_text ''{\"reminder_type\":\"weekly_email\"}''\<rparr>"

definition post_form :: options where
  "post_form = \<lparr>opt_method = Some ''POST'', opt_headers = None,
     opt_body = Body_FormData [(''journey_id'', ''7'')]\<rparr>"

definition resp_refresh_denied :: response where
  "resp_refresh_denied = \<lparr>status = 401, resp_headers = [(''content-type'', ''application/json'')],
     body_text = ''{\"detail\":\"Invalid refresh token\"}'',
     body_json = Some (JObj [(''detail'', JStr ''Invalid refresh token'')])\<rparr>"

definition only_access_token :: world where
  "only_access_token = \<lparr>localStorage = [''access_token'' \<mapsto> ''A''], trace = []\<rparr>"

definition resp_empty_detail :: response where
  "resp_empty_detail = \<lparr>status = 400, resp_headers = [(''content-type'', ''application/json'')],
     body_text = ''{\"detail\":\"\",\"message\":\"Bad request\"}'',
     body_json = Some (JObj [(''detail'', JStr []), (''message'', JStr ''Bad request'')])\<rparr>"

definition resp_blank_text :: response where
  "resp_blank_text = \<lparr>status = 500, resp_headers = [(''content-type'', ''text/plain'')],
     body_text = ''  '', body_json = None\<rparr>"

definition resp_detail :: response where
  "resp_detail = \<lparr>status = 422, resp_headers = [(''content-type'', ''application/json'')],
     body_text = ''{\"detail\":\"Score out of range\"}'',
     body_json = Some (JObj [(''detail'', JStr ''Score out of range'')])\<rparr>"

definition resp_no_content_json :: response where
  "resp_no_content_json = \<lparr>status = 204, resp_headers = [(''content-type'', ''application/json'')],
     body_text = [], body_json = None\<rparr>"

definition payload_new_access :: js_value where
  "payload_new_access = JObj [(''access_token'', JStr ''B'')]"

definition payload_empty_access :: js_value where
  "payload_empty_access = JObj [(''access_token'', JStr [])]"

definition two_questions :: assessment where
  "two_questions = \<lparr>assessment_id = ''purpose'', assessment_name = ''Purpose check'',
     questions = [''I know my purpose.'', ''I act on my purpose.''],
     assessment_scale = \<lparr>scale_min = 1, scale_max = 5, scale_labels = []\<rparr>,
     scoring_logic = ''Add the two answers.'',
     bands = [\<lparr>band_low = 0, band_high = 5, band_interpretation = ''Explore'',
                band_guidance = ''Start with the workbook.''\<rparr>,
              \<lparr>band_low = 6, band_high = 10, band_interpretation = ''Ready'',
                band_guidance = ''Keep your daily practice.''\<rparr>]\<rparr>"

definition newline_token :: world where
  "newline_token = \<lparr>localStorage = [''access_token'' \<mapsto> [CHR ''A'', CHR 0x0A, CHR ''B'']], trace = []\<rparr>"

definition trailing_space_token :: world where
  "trailing_space_token = \<lparr>localStorage = [''access_token'' \<mapsto> ''A ''], trace = []\<rparr>"

definition no_bands :: assessment where
  "no_bands = two_questions\<lparr>bands := []\<rparr>"

definition no_questions :: assessment where
  "no_questions = two_questions\<lparr>questions := []\<rparr>"

section \<open>Properties of the API client\<close>

subsection \<open>One call, step by step\<close>

lemma in_sent: "e \<in> set (sent x) \<longleftrightarrow> (\<exists>q. x = Inr q \<and> e = Api_fetch q)"
  by (cases x) auto

lemma apiFetch_throws:
  "apiFetch_request plat url opts cfg w = Inl e \<Longrightarrow> apiFetch plat url opts cfg w = (Inl e, w)"
  by (subst apiFetch.simps) simp

lemma first_outcome_request:
  "first_outcome plat url opts cfg w = Inr out \<Longrightarrow>
   \<exists>req. apiFetch_request plat url opts cfg w = Inr req
       \<and> fetch plat (length (filter is_fetch (trace w))) req = out"
  by (auto simp: first_outcome_def call_fetch_def split: sum.splits)

lemma after_first_fetch_trace:
  "trace (after_first_fetch plat url opts cfg w) =
     trace w @ sent (apiFetch_request plat url opts cfg w)"
  by (simp add: after_first_fetch_def call_fetch_def split: sum.splits)

lemma after_first_fetch_storage:
  "localStorage (after_first_fetch plat url opts cfg w) = localStorage w"
  by (simp add: after_first_fetch_def call_fetch_def split: sum.splits)

lemma apiFetch_Rejects:
  "first_outcome plat url opts cfg w = Inr Rejects \<Longrightarrow>
   apiFetch plat url opts cfg w = (Inl TypeError, after_first_fetch plat url opts cfg w)"
  by (subst apiFetch.simps)
     (auto simp add: first_outcome_def after_first_fetch_def call_fetch_def split: sum.splits)

lemma apiFetch_no_refresh:
  "first_outcome plat url opts cfg w = Inr (Resolves r) \<Longrightarrow>
   \<not> (status r = 401 \<and> config_auth cfg \<and> config_retryOnUnauthorized cfg) \<Longrightarrow>
   apiFetch plat url opts cfg w = (apiFetch_result plat r, after_first_fetch plat url opts cfg w)"
  by (subst apiFetch.simps)
     (auto simp add: first_outcome_def after_first_fetch_def call_fetch_def split: sum.splits)

lemma apiFetch_refresh:
  "first_outcome plat url opts cfg w = Inr (Resolves r) \<Longrightarrow>
   status r = 401 \<Longrightarrow> config_auth cfg \<Longrightarrow> config_retryOnUnauthorized cfg \<Longrightarrow>
   apiFetch plat url opts cfg w =
     (case refreshAccessToken plat (after_first_fetch plat url opts cfg w) of
        (Inl e, w2) \<Rightarrow> (Inl e, w2)
      | (Inr refreshed, w2) \<Rightarrow>
          if refreshed
          then apiFetch plat url opts \<lparr>auth = Some (config_auth cfg), retryOnUnauthorized = Some False\<rparr> w2
          else (apiFetch_result plat r, w2))"
  by (subst apiFetch.simps)
     (auto simp add: first_outcome_def after_first_fetch_def call_fetch_def split: sum.splits)

lemma getRefreshToken_trace [simp]:
  "getRefreshToken (w\<lparr>trace := t\<rparr>) = getRefreshToken w"
  by (simp add: getRefreshToken_def getItem_def)

lemma refreshAccessToken_trace:
  "trace (snd (refreshAccessToken plat w)) =
     trace w @ (if truthy (getRefreshToken w)
                then [Refresh_called, Refresh_fetch (refresh_request plat (getRefreshToken w))]
                else [Refresh_called])"
  by (simp add: refreshAccessToken_def call_fetch_def clearTokens_def removeItem_def
      storeTokens_def setItem_def Let_def split: fetch_outcome.splits option.splits)

lemma refreshAccessToken_True:
  "fst (refreshAccessToken plat w) = Inr True \<Longrightarrow> truthy (getRefreshToken w)"
  by (auto simp add: refreshAccessToken_def Let_def split: if_splits)

lemma refreshAccessToken_True_iff:
  "fst (refreshAccessToken plat w) = Inr True \<longleftrightarrow>
     truthy (getRefreshToken w)
     \<and> (\<exists>res data. fetch plat (length (filter is_fetch (trace w)))
                         (refresh_request plat (getRefreshToken w)) = Resolves res
                     \<and> ok res \<and> body_json res = Some data)"
  by (auto simp add: refreshAccessToken_def Let_def call_fetch_def
      split: fetch_outcome.splits option.splits)

lemma apiFetch_once:
  assumes "\<not> config_retryOnUnauthorized cfg"
  shows "snd (apiFetch plat url opts cfg w) = after_first_fetch plat url opts cfg w"
proof (cases "first_outcome plat url opts cfg w")
  case (Inl e)
  then have "apiFetch_request plat url opts cfg w = Inl e"
    by (simp add: first_outcome_def split: sum.splits)
  then show ?thesis by (simp add: apiFetch_throws after_first_fetch_def)
next
  case (Inr out)
  then show ?thesis using assms
    by (cases out) (simp_all add: apiFetch_no_refresh apiFetch_Rejects)
qed

lemma events_since_append:
  "trace w' = trace w @ es \<Longrightarrow> events_since w w' = es"
  by (simp add: events_since_def)

lemma no_retry_config: "\<not> config_retryOnUnauthorized \<lparr>auth = a, retryOnUnauthorized = Some False\<rparr>"
  by (simp add: config_retryOnUnauthorized_def)

lemma apiFetch_refresh_trace:
  assumes "first_outcome plat url opts cfg w = Inr (Resolves r)" "status r = 401"
    "config_auth cfg" "config_retryOnUnauthorized cfg"
  shows "trace (snd (apiFetch plat url opts cfg w)) =
     trace (snd (refreshAccessToken plat (after_first_fetch plat url opts cfg w))) @
       (if fst (refreshAccessToken plat (after_first_fetch plat url opts cfg w)) = Inr True
        then sent (apiFetch_request plat url opts
                \<lparr>auth = Some (config_auth cfg), retryOnUnauthorized = Some False\<rparr>
                (snd (refreshAccessToken plat (after_first_fetch plat url opts cfg w))))
        else [])"
proof (cases "refreshAccessToken plat (after_first_fetch plat url opts cfg w)")
  case (Pair res w2)
  show ?thesis
  proof (cases res)
    case (Inl e)
    with Pair assms show ?thesis by (simp add: apiFetch_refresh)
  next
    case (Inr refreshed)
    with Pair assms show ?thesis
      by (simp add: apiFetch_refresh apiFetch_once no_retry_config after_first_fetch_trace)
  qed
qed

lemma getRefreshToken_after_first_fetch:
  "getRefreshToken (after_first_fetch plat url opts cfg w) = getRefreshToken w"
  by (simp add: after_first_fetch_def call_fetch_def split: sum.splits)

lemma apiFetch_refresh_events:
  assumes "first_outcome plat url opts cfg w = Inr (Resolves r)" "status r = 401"
    "config_auth cfg" "config_retryOnUnauthorized cfg"
    and "apiFetch_request plat url opts cfg w = Inr req"
  shows "events_since w (snd (apiFetch plat url opts cfg w)) =
     Api_fetch req # Refresh_called #
       (if truthy (getRefreshToken w)
        then [Refresh_fetch (refresh_request plat (getRefreshToken w))] else []) @
       (if fst (refreshAccessToken plat (after_first_fetch plat url opts cfg w)) = Inr True
        then sent (apiFetch_request plat url opts
                \<lparr>auth = Some True, retryOnUnauthorized = Some False\<rparr>
                (snd (refreshAccessToken plat (after_first_fetch plat url opts cfg w))))
        else [])"
proof -
  have "trace (snd (apiFetch plat url opts cfg w)) = trace w @
     (Api_fetch req # Refresh_called #
       (if truthy (getRefreshToken w)
        then [Refresh_fetch (refresh_request plat (getRefreshToken w))] else []) @
       (if fst (refreshAccessToken plat (after_first_fetch plat url opts cfg w)) = Inr True
        then sent (apiFetch_request plat url opts
                \<lparr>auth = Some True, retryOnUnauthorized = Some False\<rparr>
                (snd (refreshAccessToken plat (after_first_fetch plat url opts cfg w))))
        else []))"
    using apiFetch_refresh_trace [OF assms(1-4)] assms(3,5)
    by (simp add: refreshAccessToken_trace after_first_fetch_trace getRefreshToken_after_first_fetch)
  then show ?thesis by (rule events_since_append)
qed

lemma apiFetch_sends:
  assumes "apiFetch_request plat url opts cfg w = Inr req"
  shows "\<exists>es. events_since w (snd (apiFetch plat url opts cfg w)) = Api_fetch req # es"
proof (cases "enters_refresh_path plat url opts cfg w")
  case True
  then obtain r where r: "first_outcome plat url opts cfg w = Inr (Resolves r)" "status r = 401"
      "config_auth cfg" "config_retryOnUnauthorized cfg"
    by (auto simp: enters_refresh_path_def split: sum.splits fetch_outcome.splits)
  from apiFetch_refresh_events [OF r assms] show ?thesis by blast
next
  case False
  from assms obtain out where out: "first_outcome plat url opts cfg w = Inr out"
    by (simp add: first_outcome_def)
  have "snd (apiFetch plat url opts cfg w) = after_first_fetch plat url opts cfg w"
    using False out
    by (cases out) (simp_all add: apiFetch_no_refresh apiFetch_Rejects enters_refresh_path_def)
  with assms show ?thesis
    by (simp add: events_since_def after_first_fetch_trace)
qed

lemma apiFetch_built:
  assumes "Api_fetch q \<in> set (events_since w (snd (apiFetch plat url opts cfg w)))"
  shows "\<exists>cfg' w'. apiFetch_request plat url opts cfg' w' = Inr q"
proof (cases "enters_refresh_path plat url opts cfg w")
  case True
  then obtain r where r: "first_outcome plat url opts cfg w = Inr (Resolves r)" "status r = 401"
      "config_auth cfg" "config_retryOnUnauthorized cfg"
    by (auto simp: enters_refresh_path_def split: sum.splits fetch_outcome.splits)
  from first_outcome_request [OF r(1)] obtain req where req: "apiFetch_request plat url opts cfg w = Inr req"
    by blast
  let ?rq = "apiFetch_request plat url opts \<lparr>auth = Some True, retryOnUnauthorized = Some False\<rparr>
      (snd (refreshAccessToken plat (after_first_fetch plat url opts cfg w)))"
  have "q = req \<or> ?rq = Inr q"
  proof (cases ?rq)
    case (Inl e)
    with assms show ?thesis
      unfolding apiFetch_refresh_events [OF r req] by (auto split: if_splits)
  next
    case (Inr q')
    with assms show ?thesis
      unfolding apiFetch_refresh_events [OF r req] by (auto split: if_splits)
  qed
  with req show ?thesis by blast
next
  case False
  have "snd (apiFetch plat url opts cfg w) = after_first_fetch plat url opts cfg w"
  proof (cases "first_outcome plat url opts cfg w")
    case (Inl e)
    then have "apiFetch_request plat url opts cfg w = Inl e"
      by (simp add: first_outcome_def split: sum.splits)
    then show ?thesis by (simp add: apiFetch_throws after_first_fetch_def)
  next
    case (Inr out)
    with False show ?thesis
      by (cases out) (simp_all add: apiFetch_no_refresh apiFetch_Rejects enters_refresh_path_def)
  qed
  with assms show ?thesis
    by (auto simp add: events_since_def after_first_fetch_trace in_sent)
qed

lemma apiFetch_settles:
  assumes "first_outcome plat url opts cfg w = Inr (Resolves r)"
    and "\<not> enters_refresh_path plat url opts cfg w
         \<or> fst (refreshAccessToken plat (after_first_fetch plat url opts cfg w)) = Inr False"
  shows "fst (apiFetch plat url opts cfg w) = apiFetch_result plat r"
proof (cases "enters_refresh_path plat url opts cfg w")
  case False
  with assms(1) show ?thesis
    by (simp add: apiFetch_no_refresh enters_refresh_path_def)
next
  case True
  with assms have f: "fst (refreshAccessToken plat (after_first_fetch plat url opts cfg w)) = Inr False"
    by simp
  from True assms(1) have "status r = 401" "config_auth cfg" "config_retryOnUnauthorized cfg"
    by (simp_all add: enters_refresh_path_def)
  from apiFetch_refresh [OF assms(1) this] f show ?thesis
    by (cases "refreshAccessToken plat (after_first_fetch plat url opts cfg w)") simp
qed

subsection \<open>The refresh and the retry\<close>

text \<open>
  Claim C1. Take a call with \<open>auth\<close> and \<open>retryOnUnauthorized\<close> on whose request is
  answered with status 401, whatever the later answers of \<open>fetch\<close> are.
  The log of the call is given in full. \<open>refreshAccessToken\<close> is called exactly once,
  after the original request. \<open>fetch\<close> is called for the refresh endpoint exactly so:
  once, with \<open>POST /api/token/refresh\<close> and the stored refresh token as bearer, when a
  refresh token is stored, and not at all otherwise. The refresh returns \<open>true\<close> exactly
  when a refresh token is stored and that request is answered with an ok status and a
  JSON body; so a refresh that succeeds has called the endpoint exactly once. If the
  refresh returns \<open>true\<close>, the call is the
  retried call with \<open>retryOnUnauthorized\<close> off, made once: \<open>fetch\<close> is called for the
  original request and, where the headers of the retry can be built (the refreshed token is
  a legal header value), once more for the retry, and never again. If the refresh does not
  return \<open>true\<close>, the original request is the only one.
\<close>

theorem apiFetch_refreshes_once:
  assumes "first_outcome plat url opts cfg w = Inr (Resolves r)" and "status r = 401"
    and "config_auth cfg" and "config_retryOnUnauthorized cfg"
    and "apiFetch_request plat url opts cfg w = Inr req"
  shows "events_since w (snd (apiFetch plat url opts cfg w)) =
        Api_fetch req # Refresh_called #
          (if truthy (getRefreshToken w)
           then [Refresh_fetch (refresh_request plat (getRefreshToken w))] else []) @
          (if fst (refreshAccessToken plat (after_first_fetch plat url opts cfg w)) = Inr True
           then sent (apiFetch_request plat url opts \<lparr>auth = Some True, retryOnUnauthorized = Some False\<rparr>
                        (snd (refreshAccessToken plat (after_first_fetch plat url opts cfg w))))
           else [])
    \<and> length (filter (\<lambda>e. e = Refresh_called) (events_since w (snd (apiFetch plat url opts cfg w)))) = 1
    \<and> filter is_refresh_fetch (events_since w (snd (apiFetch plat url opts cfg w))) =
        (if truthy (getRefreshToken w)
         then [Refresh_fetch (refresh_request plat (getRefreshToken w))] else [])
    \<and> (fst (refreshAccessToken plat (after_first_fetch plat url opts cfg w)) = Inr True) =
        (truthy (getRefreshToken w)
         \<and> (\<exists>res data. fetch plat (Suc (length (filter is_fetch (trace w))))
                             (refresh_request plat (getRefreshToken w)) = Resolves res
                         \<and> ok res \<and> body_json res = Some data))
    \<and> (fst (refreshAccessToken plat (after_first_fetch plat url opts cfg w)) = Inr True \<longrightarrow>
         length (filter is_refresh_fetch (events_since w (snd (apiFetch plat url opts cfg w)))) = 1
         \<and> apiFetch plat url opts cfg w =
             apiFetch plat url opts \<lparr>auth = Some True, retryOnUnauthorized = Some False\<rparr>
               (snd (refreshAccessToken plat (after_first_fetch plat url opts cfg w)))
         \<and> filter is_api_fetch (events_since w (snd (apiFetch plat url opts cfg w))) =
             Api_fetch req #
               sent (apiFetch_request plat url opts \<lparr>auth = Some True, retryOnUnauthorized = Some False\<rparr>
                       (snd (refreshAccessToken plat (after_first_fetch plat url opts cfg w)))))
    \<and> (fst (refreshAccessToken plat (after_first_fetch plat url opts cfg w)) \<noteq> Inr True \<longrightarrow>
         filter is_api_fetch (events_since w (snd (apiFetch plat url opts cfg w))) = [Api_fetch req])"
proof -
  let ?ref = "refreshAccessToken plat (after_first_fetch plat url opts cfg w)"
  note es = apiFetch_refresh_events [OF assms]
  have t: "fst ?ref = Inr True \<Longrightarrow> truthy (getRefreshToken w)"
    using refreshAccessToken_True [of plat "after_first_fetch plat url opts cfg w"]
    by (simp add: getRefreshToken_after_first_fetch)
  have call: "apiFetch plat url opts cfg w =
        apiFetch plat url opts \<lparr>auth = Some True, retryOnUnauthorized = Some False\<rparr> (snd ?ref)"
    if "fst ?ref = Inr True"
  proof -
    from that obtain w2 where "?ref = (Inr True, w2)" by (cases ?ref) auto
    with apiFetch_refresh [OF assms(1-4)] assms(3) show ?thesis by simp
  qed
  let ?rq = "apiFetch_request plat url opts \<lparr>auth = Some True, retryOnUnauthorized = Some False\<rparr> (snd ?ref)"
  have a: "length (filter (\<lambda>e. e = Refresh_called) (events_since w (snd (apiFetch plat url opts cfg w)))) = 1"
    unfolding es by (cases ?rq; simp only: sum.case filter.simps filter_append if_distrib; simp)
  have b: "filter is_refresh_fetch (events_since w (snd (apiFetch plat url opts cfg w))) =
        (if truthy (getRefreshToken w)
         then [Refresh_fetch (refresh_request plat (getRefreshToken w))] else [])"
    unfolding es by (cases ?rq; simp only: sum.case filter.simps filter_append if_distrib; simp)
  have c: "filter is_api_fetch (events_since w (snd (apiFetch plat url opts cfg w))) =
             Api_fetch req # sent ?rq"
    if "fst ?ref = Inr True"
    unfolding es using that by (cases ?rq; simp only: sum.case filter.simps filter_append if_distrib; simp)
  have d: "filter is_api_fetch (events_since w (snd (apiFetch plat url opts cfg w))) = [Api_fetch req]"
    if "fst ?ref \<noteq> Inr True"
    unfolding es using that by (simp only: sum.case filter.simps filter_append if_distrib; simp)
  have b1: "length (filter is_refresh_fetch (events_since w (snd (apiFetch plat url opts cfg w)))) = 1"
    if "fst ?ref = Inr True"
    using b t [OF that] by simp
  have s: "(fst ?ref = Inr True) =
        (truthy (getRefreshToken w)
         \<and> (\<exists>res data. fetch plat (Suc (length (filter is_fetch (trace w))))
                             (refresh_request plat (getRefreshToken w)) = Resolves res
                         \<and> ok res \<and> body_json res = Some data))"
    using assms(5)
    by (simp add: refreshAccessToken_True_iff getRefreshToken_after_first_fetch after_first_fetch_trace)
  from es a b s b1 c d call show ?thesis by blast
qed

theorem apiFetch_refreshes_once_witness:
  "first_outcome (answers [resp_401, resp_tokens, resp_ok]) ''/api/assessments/score'' post_score with_auth logged_in
     = Inr (Resolves resp_401)
   \<and> status resp_401 = 401 \<and> config_auth with_auth \<and> config_retryOnUnauthorized with_auth
   \<and> apiFetch_request (answers [resp_401, resp_tokens, resp_ok]) ''/api/assessments/score'' post_score
        with_auth logged_in =
      Inr \<lparr>req_url = ''/api/assessments/score'', req_method = Some ''POST'',
           req_headers = [(''Content-Type'', ''application/json''), (''Authorization'', ''Bearer A'')],
           req_body = Body_text ''{\"assessment_id\":1,\"score\":7}''\<rparr>
   \<and> length (filter (\<lambda>e. e = Refresh_called)
        (events_since logged_in (snd (apiFetch (answers [resp_401, resp_tokens, resp_ok])
           ''/api/assessments/score'' post_score with_auth logged_in)))) = 1
   \<and> length (filter is_refresh_fetch
        (events_since logged_in (snd (apiFetch (answers [resp_401, resp_tokens, resp_ok])
           ''/api/assessments/score'' post_score with_auth logged_in)))) = 1
   \<and> filter is_api_fetch
        (events_since logged_in (snd (apiFetch (answers [resp_401, resp_tokens, resp_ok])
           ''/api/assessments/score'' post_score with_auth logged_in))) =
      [Api_fetch \<lparr>req_url = ''/api/assessments/score'', req_method = Some ''POST'',
           req_headers = [(''Content-Type'', ''application/json''), (''Authorization'', ''Bearer A'')],
           req_body = Body_text ''{\"assessment_id\":1,\"score\":7}''\<rparr>,
       Api_fetch \<lparr>req_url = ''/api/assessments/score'', req_method = Some ''POST'',
           req_headers = [(''Content-Type'', ''application/json''), (''Authorization'', ''Bearer B'')],
           req_body = Body_text ''{\"assessment_id\":1,\"score\":7}''\<rparr>]"
proof -
  let ?P = "answers [resp_401, resp_tokens, resp_ok]"
  have h1: "first_outcome ?P ''/api/assessments/score'' post_score with_auth logged_in = Inr (Resolves resp_401)"
    by code_simp
  have h2: "status resp_401 = 401" by code_simp
  have h3: "config_auth with_auth" by code_simp
  have h4: "config_retryOnUnauthorized with_auth" by code_simp
  have h5: "apiFetch_request ?P ''/api/assessments/score'' post_score with_auth logged_in =
      Inr \<lparr>req_url = ''/api/assessments/score'', req_method = Some ''POST'',
           req_headers = [(''Content-Type'', ''application/json''), (''Authorization'', ''Bearer A'')],
           req_body = Body_text ''{\"assessment_id\":1,\"score\":7}''\<rparr>"
    by code_simp
  have q: "apiFetch_request ?P ''/api/assessments/score'' post_score
      \<lparr>auth = Some True, retryOnUnauthorized = Some False\<rparr>
      (snd (refreshAccessToken ?P
         (after_first_fetch ?P ''/api/assessments/score'' post_score with_auth logged_in))) =
      Inr \<lparr>req_url = ''/api/assessments/score'', req_method = Some ''POST'',
           req_headers = [(''Content-Type'', ''application/json''), (''Authorization'', ''Bearer B'')],
           req_body = Body_text ''{\"assessment_id\":1,\"score\":7}''\<rparr>"
    by code_simp
  have r: "fst (refreshAccessToken ?P
      (after_first_fetch ?P ''/api/assessments/score'' post_score with_auth logged_in)) = Inr True"
    by code_simp
  from apiFetch_refreshes_once [OF h1 h2 h3 h4 h5] r
  have "length (filter (\<lambda>e. e = Refresh_called)
        (events_since logged_in (snd (apiFetch ?P ''/api/assessments/score'' post_score with_auth logged_in)))) = 1
    \<and> length (filter is_refresh_fetch
        (events_since logged_in (snd (apiFetch ?P ''/api/assessments/score'' post_score with_auth logged_in)))) = 1
    \<and> filter is_api_fetch
        (events_since logged_in (snd (apiFetch ?P ''/api/assessments/score'' post_score with_auth logged_in))) =
        Api_fetch \<lparr>req_url = ''/api/assessments/score'', req_method = Some ''POST'',
           req_headers = [(''Content-Type'', ''application/json''), (''Authorization'', ''Bearer A'')],
           req_body = Body_text ''{\"assessment_id\":1,\"score\":7}''\<rparr> #
        sent (apiFetch_request ?P ''/api/assessments/score'' post_score
            \<lparr>auth = Some True, retryOnUnauthorized = Some False\<rparr>
            (snd (refreshAccessToken ?P
               (after_first_fetch ?P ''/api/assessments/score'' post_score with_auth logged_in))))"
    by blast
  with q h1 h2 h3 h4 h5 show ?thesis by simp
qed

subsection \<open>A refresh that fails\<close>

lemma fetch_count_after_first_fetch:
  "apiFetch_request plat url opts cfg w = Inr req \<Longrightarrow>
   length (filter is_fetch (trace (after_first_fetch plat url opts cfg w))) =
     Suc (length (filter is_fetch (trace w)))"
  by (simp add: after_first_fetch_trace)

lemma refreshAccessToken_no_token:
  "\<not> truthy (getRefreshToken w) \<Longrightarrow>
   refreshAccessToken plat w = (Inr False, w\<lparr>trace := trace w @ [Refresh_called]\<rparr>)"
  by (simp add: refreshAccessToken_def Let_def)

lemma refreshAccessToken_denied:
  assumes "truthy (getRefreshToken w)"
    and "fetch plat (length (filter is_fetch (trace w))) (refresh_request plat (getRefreshToken w)) = Resolves res"
    and "\<not> ok res"
  shows "refreshAccessToken plat w =
     (Inr False, clearTokens (w\<lparr>trace := trace w @
        [Refresh_called, Refresh_fetch (refresh_request plat (getRefreshToken w))]\<rparr>))"
  using assms by (simp add: refreshAccessToken_def Let_def call_fetch_def)

lemma clearTokens_storage:
  "localStorage (clearTokens w) TOKEN_KEYS_access = None"
  "localStorage (clearTokens w) TOKEN_KEYS_refresh = None"
  "trace (clearTokens w) = trace w"
  by (simp_all add: clearTokens_def removeItem_def)

lemma apiFetch_result_401:
  assumes "status r = 401"
  shows "apiFetch_result plat r =
     (case response_data r of Inl e \<Rightarrow> Inl e
      | Inr data \<Rightarrow> Inl (Error (js_string plat (error_message r data))))"
  using assms by (simp add: apiFetch_result_def ok_def split: sum.splits)

text \<open>
  Claim C2, as amended. Take a call with \<open>auth\<close> and \<open>retryOnUnauthorized\<close> on whose
  request is answered with status 401. If no refresh token is stored (or the stored one is
  the empty string), no refresh request is sent and the storage is left as it was. If a
  refresh token is stored and the refresh endpoint answers with a status that is not ok,
  both stored tokens are removed. In both cases the original request is not sent again,
  and the call throws what the original 401 response gives: the error with the message
  read from its body (or the rejection of reading that body), never an error of the
  refresh.
\<close>

theorem apiFetch_refresh_fails:
  assumes "first_outcome plat url opts cfg w = Inr (Resolves r)" and "status r = 401"
    and "config_auth cfg" and "config_retryOnUnauthorized cfg"
    and "apiFetch_request plat url opts cfg w = Inr req"
  shows "(\<not> truthy (getRefreshToken w) \<longrightarrow>
            fst (apiFetch plat url opts cfg w) = apiFetch_result plat r
          \<and> localStorage (snd (apiFetch plat url opts cfg w)) = localStorage w
          \<and> events_since w (snd (apiFetch plat url opts cfg w)) =
              [Api_fetch req, Refresh_called])
    \<and> (\<forall>res. truthy (getRefreshToken w)
          \<and> fetch plat (Suc (length (filter is_fetch (trace w)))) (refresh_request plat (getRefreshToken w))
              = Resolves res
          \<and> \<not> ok res \<longrightarrow>
            fst (apiFetch plat url opts cfg w) = apiFetch_result plat r
          \<and> localStorage (snd (apiFetch plat url opts cfg w)) TOKEN_KEYS_access = None
          \<and> localStorage (snd (apiFetch plat url opts cfg w)) TOKEN_KEYS_refresh = None
          \<and> events_since w (snd (apiFetch plat url opts cfg w)) =
              [Api_fetch req, Refresh_called,
               Refresh_fetch (refresh_request plat (getRefreshToken w))])
    \<and> (\<exists>e. apiFetch_result plat r = Inl e)
    \<and> (\<forall>data. response_data r = Inr data \<longrightarrow>
          apiFetch_result plat r = Inl (Error (js_string plat (error_message r data))))"
proof -
  let ?w1 = "after_first_fetch plat url opts cfg w"
  note step = apiFetch_refresh [OF assms(1-4)]
  have a: "fst (apiFetch plat url opts cfg w) = apiFetch_result plat r
          \<and> localStorage (snd (apiFetch plat url opts cfg w)) = localStorage w
          \<and> events_since w (snd (apiFetch plat url opts cfg w)) =
              [Api_fetch req, Refresh_called]"
    if "\<not> truthy (getRefreshToken w)"
  proof -
    have "refreshAccessToken plat ?w1 = (Inr False, ?w1\<lparr>trace := trace ?w1 @ [Refresh_called]\<rparr>)"
      using that by (simp add: refreshAccessToken_no_token getRefreshToken_after_first_fetch)
    then have "apiFetch plat url opts cfg w =
        (apiFetch_result plat r, ?w1\<lparr>trace := trace ?w1 @ [Refresh_called]\<rparr>)"
      using step by simp
    then show ?thesis
      using assms(5) by (simp add: after_first_fetch_storage after_first_fetch_trace events_since_def)
  qed
  have b: "fst (apiFetch plat url opts cfg w) = apiFetch_result plat r
          \<and> localStorage (snd (apiFetch plat url opts cfg w)) TOKEN_KEYS_access = None
          \<and> localStorage (snd (apiFetch plat url opts cfg w)) TOKEN_KEYS_refresh = None
          \<and> events_since w (snd (apiFetch plat url opts cfg w)) =
              [Api_fetch req, Refresh_called,
               Refresh_fetch (refresh_request plat (getRefreshToken w))]"
    if t: "truthy (getRefreshToken w)"
      and f: "fetch plat (Suc (length (filter is_fetch (trace w)))) (refresh_request plat (getRefreshToken w))
              = Resolves res"
      and n: "\<not> ok res" for res
  proof -
    have "refreshAccessToken plat ?w1 =
        (Inr False, clearTokens (?w1\<lparr>trace := trace ?w1 @
           [Refresh_called, Refresh_fetch (refresh_request plat (getRefreshToken ?w1))]\<rparr>))"
      using t f n assms(5)
      by (intro refreshAccessToken_denied)
         (simp_all add: getRefreshToken_after_first_fetch fetch_count_after_first_fetch)
    then have "apiFetch plat url opts cfg w =
        (apiFetch_result plat r, clearTokens (?w1\<lparr>trace := trace ?w1 @
           [Refresh_called, Refresh_fetch (refresh_request plat (getRefreshToken ?w1))]\<rparr>))"
      using step by simp
    then show ?thesis
      using assms(5)
      by (simp add: clearTokens_storage after_first_fetch_trace events_since_def
          getRefreshToken_after_first_fetch)
  qed
  have c: "\<exists>e. apiFetch_result plat r = Inl e"
    using assms(2) by (simp add: apiFetch_result_401 split: sum.splits)
  have d: "apiFetch_result plat r = Inl (Error (js_string plat (error_message r data)))"
    if "response_data r = Inr data" for data
    using assms(2) that by (simp add: apiFetch_result_401)
  from a b c d show ?thesis by blast
qed

theorem apiFetch_refresh_fails_witness:
  "first_outcome (answers [resp_401, resp_refresh_denied]) ''/api/reminders/7'' post_score with_auth logged_in
     = Inr (Resolves resp_401)
   \<and> status resp_401 = 401 \<and> config_auth with_auth \<and> config_retryOnUnauthorized with_auth
   \<and> apiFetch_request (answers [resp_401, resp_refresh_denied]) ''/api/reminders/7'' post_score
        with_auth logged_in =
      Inr \<lparr>req_url = ''/api/reminders/7'', req_method = Some ''POST'',
           req_headers = [(''Content-Type'', ''application/json''), (''Authorization'', ''Bearer A'')],
           req_body = Body_text ''{\"assessment_id\":1,\"score\":7}''\<rparr>
   \<and> truthy (getRefreshToken logged_in)
   \<and> fetch (answers [resp_401, resp_refresh_denied]) (Suc (length (filter is_fetch (trace logged_in))))
        (refresh_request (answers [resp_401, resp_refresh_denied]) (getRefreshToken logged_in))
       = Resolves resp_refresh_denied
   \<and> \<not> ok resp_refresh_denied
   \<and> fst (apiFetch (answers [resp_401, resp_refresh_denied]) ''/api/reminders/7'' post_score with_auth logged_in)
       = Inl (Error ''Token expired'')
   \<and> localStorage (snd (apiFetch (answers [resp_401, resp_refresh_denied]) ''/api/reminders/7'' post_score
        with_auth logged_in)) TOKEN_KEYS_access = None
   \<and> localStorage (snd (apiFetch (answers [resp_401, resp_refresh_denied]) ''/api/reminders/7'' post_score
        with_auth logged_in)) TOKEN_KEYS_refresh = None"
proof -
  let ?P = "answers [resp_401, resp_refresh_denied]"
  have h1: "first_outcome ?P ''/api/reminders/7'' post_score with_auth logged_in = Inr (Resolves resp_401)"
    by code_simp
  have h2: "status resp_401 = 401" by code_simp
  have h3: "config_auth with_auth" by code_simp
  have h4: "config_retryOnUnauthorized with_auth" by code_simp
  have h5: "apiFetch_request ?P ''/api/reminders/7'' post_score with_auth logged_in =
      Inr \<lparr>req_url = ''/api/reminders/7'', req_method = Some ''POST'',
           req_headers = [(''Content-Type'', ''application/json''), (''Authorization'', ''Bearer A'')],
           req_body = Body_text ''{\"assessment_id\":1,\"score\":7}''\<rparr>"
    by code_simp
  have t: "truthy (getRefreshToken logged_in)" by code_simp
  have f: "fetch ?P (Suc (length (filter is_fetch (trace logged_in))))
        (refresh_request ?P (getRefreshToken logged_in)) = Resolves resp_refresh_denied"
    by code_simp
  have n: "\<not> ok resp_refresh_denied" by code_simp
  have e: "apiFetch_result ?P resp_401 = Inl (Error ''Token expired'')" by code_simp
  from apiFetch_refresh_fails [OF h1 h2 h3 h4 h5] t f n
  have "fst (apiFetch ?P ''/api/reminders/7'' post_score with_auth logged_in) = apiFetch_result ?P resp_401
    \<and> localStorage (snd (apiFetch ?P ''/api/reminders/7'' post_score with_auth logged_in)) TOKEN_KEYS_access = None
    \<and> localStorage (snd (apiFetch ?P ''/api/reminders/7'' post_score with_auth logged_in)) TOKEN_KEYS_refresh = None"
    by blast
  with h1 h2 h3 h4 h5 t f n e show ?thesis by simp
qed

text \<open>
  Claim C2 as stated fails: with an access token and no refresh token stored, the
  401 is answered by the error of the original response, and the access token is still
  stored after the call.
\<close>

theorem apiFetch_refresh_fails_counterexample:
  "config_auth with_auth \<and> config_retryOnUnauthorized with_auth
   \<and> first_outcome (answers [resp_401]) ''/api/reminders/7'' post_score with_auth only_access_token
       = Inr (Resolves resp_401)
   \<and> status resp_401 = 401
   \<and> localStorage only_access_token TOKEN_KEYS_refresh = None
   \<and> fst (apiFetch (answers [resp_401]) ''/api/reminders/7'' post_score with_auth only_access_token)
       = Inl (Error ''Token expired'')
   \<and> localStorage (snd (apiFetch (answers [resp_401]) ''/api/reminders/7'' post_score with_auth
        only_access_token)) TOKEN_KEYS_access = Some ''A''"
  by code_simp

subsection \<open>The message of the error\<close>

lemma js_trim_empty: "js_trim s = [] \<longleftrightarrow> (\<forall>c\<in>set s. is_white c)"
proof -
  have "dropWhile is_white (rev (dropWhile is_white s)) = [] \<longleftrightarrow> dropWhile is_white s = []"
  proof
    assume a: "dropWhile is_white (rev (dropWhile is_white s)) = []"
    show "dropWhile is_white s = []"
    proof (rule ccontr)
      assume n: "dropWhile is_white s \<noteq> []"
      then have "\<not> is_white (hd (dropWhile is_white s))" by (rule hd_dropWhile)
      moreover from n have "hd (dropWhile is_white s) \<in> set (rev (dropWhile is_white s))" by simp
      ultimately show False using a by (simp add: dropWhile_eq_Nil_conv)
    qed
  next
    assume e: "dropWhile is_white s = []"
    show "dropWhile is_white (rev (dropWhile is_white s)) = []"
      unfolding e by simp
  qed
  then show ?thesis by (simp add: js_trim_def dropWhile_eq_Nil_conv)
qed

lemma error_message_chain:
  "js_string plat (error_message r data) =
     (if truthy (js_get data ''detail'') then js_string plat (js_get data ''detail'')
      else if truthy (js_get data ''message'') then js_string plat (js_get data ''message'')
      else case data of
             JStr s \<Rightarrow> if (\<exists>c\<in>set s. \<not> is_white c) then s
                       else ''Request failed with status '' @ show_nat (status r)
           | _ \<Rightarrow> ''Request failed with status '' @ show_nat (status r))"
proof (cases "truthy data")
  case True
  then show ?thesis
    by (cases data)
       (simp_all add: error_message_def js_or_def js_and_def js_string_def status_message_def js_trim_empty)
next
  case False
  then show ?thesis
    by (cases data)
       (simp_all add: error_message_def js_or_def js_and_def js_string_def status_message_def js_trim_def)
qed

text \<open>
  Claim C3, as amended. Take a response that is not ok and that the call settles on (its
  request is answered by it, and the call does not retry after a refresh), with the body
  read as \<open>data\<close>. The call throws an \<open>Error\<close> whose message is the first of: the
  \<open>detail\<close> of \<open>data\<close> if that is truthy; the \<open>message\<close> of \<open>data\<close> if that is truthy;
  \<open>data\<close> itself if it is a string with a character that is not white space; and
  otherwise \<open>Request failed with status\<close> followed by the status code.
\<close>

theorem apiFetch_error_message:
  assumes "first_outcome plat url opts cfg w = Inr (Resolves r)" and "\<not> ok r"
    and "response_data r = Inr data"
    and "\<not> enters_refresh_path plat url opts cfg w
         \<or> fst (refreshAccessToken plat (after_first_fetch plat url opts cfg w)) = Inr False"
  shows "fst (apiFetch plat url opts cfg w) =
     Inl (Error
       (if truthy (js_get data ''detail'') then js_string plat (js_get data ''detail'')
        else if truthy (js_get data ''message'') then js_string plat (js_get data ''message'')
        else case data of
               JStr s \<Rightarrow> if (\<exists>c\<in>set s. \<not> is_white c) then s
                         else ''Request failed with status '' @ show_nat (status r)
             | _ \<Rightarrow> ''Request failed with status '' @ show_nat (status r)))"
proof -
  from assms(2) have "status r \<noteq> 204" by (auto simp: ok_def)
  with assms(2,3) have "apiFetch_result plat r = Inl (Error (js_string plat (error_message r data)))"
    by (simp add: apiFetch_result_def)
  with apiFetch_settles [OF assms(1,4)] show ?thesis
    by (simp only: error_message_chain)
qed

theorem apiFetch_error_message_witness:
  "first_outcome (answers [resp_detail]) ''/api/assessments/score'' post_score no_config logged_out
     = Inr (Resolves resp_detail)
   \<and> \<not> ok resp_detail
   \<and> response_data resp_detail = Inr (JObj [(''detail'', JStr ''Score out of range'')])
   \<and> \<not> enters_refresh_path (answers [resp_detail]) ''/api/assessments/score'' post_score no_config logged_out
   \<and> fst (apiFetch (answers [resp_detail]) ''/api/assessments/score'' post_score no_config logged_out)
       = Inl (Error ''Score out of range'')"
proof -
  let ?P = "answers [resp_detail]"
  have h1: "first_outcome ?P ''/api/assessments/score'' post_score no_config logged_out = Inr (Resolves resp_detail)"
    by code_simp
  have h2: "\<not> ok resp_detail" by code_simp
  have h3: "response_data resp_detail = Inr (JObj [(''detail'', JStr ''Score out of range'')])"
    by code_simp
  have h4: "\<not> enters_refresh_path ?P ''/api/assessments/score'' post_score no_config logged_out"
    by code_simp
  from apiFetch_error_message [OF h1 h2 h3 disjI1 [OF h4]]
  have "fst (apiFetch ?P ''/api/assessments/score'' post_score no_config logged_out)
       = Inl (Error ''Score out of range'')"
    by (simp add: js_string_def)
  with h1 h2 h3 h4 show ?thesis by blast
qed

text \<open>
  Claim C3 as stated fails twice. A body whose \<open>detail\<close> is present but is the empty
  string gives the \<open>message\<close> field, not the \<open>detail\<close>; a text body of two blanks, a
  string that is not empty, gives the message with the status code, not the text.
\<close>

theorem apiFetch_error_message_counterexample:
  "\<not> ok resp_empty_detail
   \<and> response_data resp_empty_detail = Inr (JObj [(''detail'', JStr []), (''message'', JStr ''Bad request'')])
   \<and> fst (apiFetch (answers [resp_empty_detail]) ''/api/intent'' post_score no_config logged_out)
       = Inl (Error ''Bad request'')
   \<and> \<not> ok resp_blank_text
   \<and> response_data resp_blank_text = Inr (JStr ''  '')
   \<and> fst (apiFetch (answers [resp_blank_text]) ''/api/intent'' post_score no_config logged_out)
       = Inl (Error ''Request failed with status 500'')"
  by code_simp

subsection \<open>The headers of the request\<close>

lemma same_name_length: "same_name a b \<Longrightarrow> length a = length b"
  unfolding same_name_def by (metis length_map)

lemma headers_set_Inr:
  "headers_set hs n v = Inr hs' \<Longrightarrow>
   hs' = filter (\<lambda>kv. \<not> same_name (fst kv) n) hs @ [(n, normalize_value v)]"
  by (simp add: headers_set_def split: if_splits)

lemma headers_get_set_other:
  assumes "\<not> same_name n m" and "headers_set hs n v = Inr hs'"
  shows "headers_get hs' m = headers_get hs m"
proof -
  have "\<And>k. (\<not> same_name k n \<and> same_name k m) = same_name k m"
    using assms(1) by (auto simp: same_name_def)
  then have "filter (\<lambda>kv. same_name (fst kv) m) hs' = filter (\<lambda>kv. same_name (fst kv) m) hs"
    using assms(1) by (simp add: headers_set_Inr [OF assms(2)])
  then show ?thesis by (simp add: headers_get_def)
qed

lemma headers_get_set_same:
  assumes "headers_set hs n v = Inr hs'"
  shows "headers_get hs' n = Some (normalize_value v)"
proof -
  have "filter (\<lambda>kv. same_name (fst kv) n) (filter (\<lambda>kv. \<not> same_name (fst kv) n) hs) = []"
    by (induction hs) auto
  then show ?thesis
    by (simp add: headers_get_def headers_set_Inr [OF assms] same_name_def)
qed

lemma headers_has_get: "headers_has hs n \<longleftrightarrow> headers_get hs n \<noteq> None"
  by (simp add: headers_get_def headers_has_def split: list.splits)

lemma authorization_not_content_type:
  "\<not> same_name ''Authorization'' ''Content-Type''" "\<not> same_name ''Content-Type'' ''Authorization''"
  using same_name_length by fastforce+

lemma content_type_legal:
  "legal_name ''Content-Type''" "legal_value ''application/json''"
  "normalize_value ''application/json'' = ''application/json''"
  by code_simp+

lemma authorization_legal: "legal_name ''Authorization''"
  by code_simp

lemma headers_set_content_type:
  "\<exists>hs'. headers_set hs ''Content-Type'' ''application/json'' = Inr hs'"
  by (simp add: headers_set_def content_type_legal)

lemma content_type_step:
  "\<exists>h1. (if c then headers_set hs ''Content-Type'' ''application/json'' else Inr hs) = Inr h1"
  using headers_set_content_type [of hs] by (cases c) simp_all

lemma headers_set_authorization:
  "headers_set hs ''Authorization'' v =
     (if legal_value (normalize_value v)
      then Inr (filter (\<lambda>kv. \<not> same_name (fst kv) ''Authorization'') hs @ [(''Authorization'', normalize_value v)])
      else Inl TypeError)"
  by (simp add: headers_set_def authorization_legal)

lemma apiFetch_request_content_type:
  assumes "hasBody opts" and "Headers_new (opt_headers opts) = Inr hs"
    and "\<not> headers_has hs ''Content-Type''"
    and "apiFetch_request plat url opts cfg w = Inr q"
  shows "headers_get (req_headers q) ''Content-Type'' =
           (if is_FormData (opt_body opts) then None else Some ''application/json'')"
proof -
  obtain h1 where h1: "(if hasBody opts \<and> \<not> is_FormData (opt_body opts) \<and> \<not> headers_has hs ''Content-Type''
                 then headers_set hs ''Content-Type'' ''application/json'' else Inr hs) = Inr h1"
    using content_type_step by blast
  have c1: "headers_get h1 ''Content-Type'' =
           (if is_FormData (opt_body opts) then None else Some ''application/json'')"
  proof (cases "is_FormData (opt_body opts)")
    case True
    with h1 assms(3) show ?thesis by (simp add: headers_has_get)
  next
    case False
    with h1 assms(1,3) have "headers_set hs ''Content-Type'' ''application/json'' = Inr h1" by simp
    from headers_get_set_same [OF this] False show ?thesis by (simp add: content_type_legal)
  qed
  obtain h2 where h2: "(if config_auth cfg \<and> truthy (getAccessToken w)
                      then headers_set h1 ''Authorization'' (''Bearer '' @ js_string plat (getAccessToken w))
                      else Inr h1) = Inr h2" and q: "req_headers q = h2"
    using assms(2,4) h1 by (auto simp add: apiFetch_request_def split: sum.splits)
  have "headers_get h2 ''Content-Type'' = headers_get h1 ''Content-Type''"
  proof (cases "config_auth cfg \<and> truthy (getAccessToken w)")
    case True
    with h2 have "headers_set h1 ''Authorization'' (''Bearer '' @ js_string plat (getAccessToken w)) = Inr h2"
      by simp
    from headers_get_set_other [OF authorization_not_content_type(1) this] show ?thesis .
  next
    case False
    with h2 show ?thesis by auto
  qed
  with c1 q show ?thesis by simp
qed

lemma apiFetch_request_builds:
  assumes "Headers_new (opt_headers opts) = Inr hs"
    and "config_auth cfg \<and> truthy (getAccessToken w) \<longrightarrow>
         legal_value (normalize_value (''Bearer '' @ js_string plat (getAccessToken w)))"
  shows "\<exists>req. apiFetch_request plat url opts cfg w = Inr req"
proof -
  obtain h1 where h1: "(if hasBody opts \<and> \<not> is_FormData (opt_body opts) \<and> \<not> headers_has hs ''Content-Type''
                 then headers_set hs ''Content-Type'' ''application/json'' else Inr hs) = Inr h1"
    using content_type_step by blast
  with assms show ?thesis
    by (simp add: apiFetch_request_def headers_set_authorization)
qed

lemma apiFetch_request_illegal:
  assumes "Headers_new (opt_headers opts) = Inr hs"
    and "config_auth cfg" and "truthy (getAccessToken w)"
    and "\<not> legal_value (normalize_value (''Bearer '' @ js_string plat (getAccessToken w)))"
  shows "apiFetch_request plat url opts cfg w = Inl TypeError"
proof -
  obtain h1 where h1: "(if hasBody opts \<and> \<not> is_FormData (opt_body opts) \<and> \<not> headers_has hs ''Content-Type''
                 then headers_set hs ''Content-Type'' ''application/json'' else Inr hs) = Inr h1"
    using content_type_step by blast
  with assms show ?thesis
    by (simp add: apiFetch_request_def headers_set_authorization)
qed

text \<open>
  Claim C5. Take \<open>options\<close> with a body (neither \<open>undefined\<close> nor \<open>null\<close>) and with
  legal headers, none of them a \<open>Content-Type\<close>. Every request the call sends (the retry
  included) has \<open>Content-Type: application/json\<close>, unless the body is a \<open>FormData\<close>:
  then the request has no \<open>Content-Type\<close> header. The request is sent whenever its
  headers can be built, that is unless \<open>auth\<close> is on and the stored token is no legal
  header value.
\<close>

theorem apiFetch_content_type:
  assumes "hasBody opts" and "Headers_new (opt_headers opts) = Inr hs"
    and "\<not> headers_has hs ''Content-Type''"
  shows "((config_auth cfg \<and> truthy (getAccessToken w) \<longrightarrow>
            legal_value (normalize_value (''Bearer '' @ js_string plat (getAccessToken w)))) \<longrightarrow>
          (\<exists>req es. apiFetch_request plat url opts cfg w = Inr req
             \<and> events_since w (snd (apiFetch plat url opts cfg w)) = Api_fetch req # es))
    \<and> (\<forall>q. Api_fetch q \<in> set (events_since w (snd (apiFetch plat url opts cfg w))) \<longrightarrow>
          headers_get (req_headers q) ''Content-Type'' =
            (if is_FormData (opt_body opts) then None else Some ''application/json''))"
proof -
  have a: "\<exists>req es. apiFetch_request plat url opts cfg w = Inr req
             \<and> events_since w (snd (apiFetch plat url opts cfg w)) = Api_fetch req # es"
    if "config_auth cfg \<and> truthy (getAccessToken w) \<longrightarrow>
            legal_value (normalize_value (''Bearer '' @ js_string plat (getAccessToken w)))"
    using apiFetch_request_builds [OF assms(2) that] apiFetch_sends by blast
  have b: "headers_get (req_headers q) ''Content-Type'' =
            (if is_FormData (opt_body opts) then None else Some ''application/json'')"
    if "Api_fetch q \<in> set (events_since w (snd (apiFetch plat url opts cfg w)))" for q
  proof -
    from apiFetch_built [OF that] obtain cfg' w' where "apiFetch_request plat url opts cfg' w' = Inr q"
      by blast
    from apiFetch_request_content_type [OF assms this] show ?thesis .
  qed
  from a b show ?thesis by blast
qed

theorem apiFetch_content_type_witness:
  "hasBody post_score \<and> Headers_new (opt_headers post_score) = Inr []
   \<and> \<not> headers_has [] ''Content-Type''
   \<and> events_since logged_in (snd (apiFetch (answers [resp_ok]) ''/api/reminders/7'' post_score with_auth logged_in))
       = [Api_fetch \<lparr>req_url = ''/api/reminders/7'', req_method = Some ''POST'',
            req_headers = [(''Content-Type'', ''application/json''), (''Authorization'', ''Bearer A'')],
            req_body = Body_text ''{\"assessment_id\":1,\"score\":7}''\<rparr>]
   \<and> headers_get [(''Content-Type'', ''application/json''), (''Authorization'', ''Bearer A'')] ''Content-Type''
       = Some ''application/json''
   \<and> hasBody post_form \<and> Headers_new (opt_headers post_form) = Inr []
   \<and> events_since logged_out (snd (apiFetch (answers [resp_ok]) ''/api/intent'' post_form no_config logged_out))
       = [Api_fetch \<lparr>req_url = ''/api/intent'', req_method = Some ''POST'', req_headers = [],
            req_body = Body_FormData [(''journey_id'', ''7'')]\<rparr>]
   \<and> headers_get [] ''Content-Type'' = None"
proof -
  let ?q = "\<lparr>req_url = ''/api/reminders/7'', req_method = Some ''POST'',
            req_headers = [(''Content-Type'', ''application/json''), (''Authorization'', ''Bearer A'')],
            req_body = Body_text ''{\"assessment_id\":1,\"score\":7}''\<rparr>"
  let ?f = "\<lparr>req_url = ''/api/intent'', req_method = Some ''POST'', req_headers = [],
            req_body = Body_FormData [(''journey_id'', ''7'')]\<rparr>"
  have h1: "hasBody post_score" by code_simp
  have h2: "Headers_new (opt_headers post_score) = Inr []" by code_simp
  have h3: "\<not> headers_has [] ''Content-Type''" by code_simp
  have e: "events_since logged_in (snd (apiFetch (answers [resp_ok]) ''/api/reminders/7'' post_score with_auth logged_in))
       = [Api_fetch ?q]"
    by code_simp
  have f: "\<not> is_FormData (opt_body post_score)" by code_simp
  from apiFetch_content_type [OF h1 h2 h3, of with_auth logged_in "answers [resp_ok]" "''/api/reminders/7''"] e f
  have a: "headers_get (req_headers ?q) ''Content-Type'' = Some ''application/json''"
    by simp
  have g1: "hasBody post_form" by code_simp
  have g2: "Headers_new (opt_headers post_form) = Inr []" by code_simp
  have e': "events_since logged_out (snd (apiFetch (answers [resp_ok]) ''/api/intent'' post_form no_config logged_out))
       = [Api_fetch ?f]"
    by code_simp
  have g: "is_FormData (opt_body post_form)" by code_simp
  from apiFetch_content_type [OF g1 g2 h3, of no_config logged_out "answers [resp_ok]" "''/api/intent''"] e' g
  have b: "headers_get (req_headers ?f) ''Content-Type'' = None"
    by simp
  from h1 h2 h3 e a g1 g2 e' b show ?thesis by simp
qed

lemma getAccessToken_cases:
  "getAccessToken w = (case localStorage w TOKEN_KEYS_access of None \<Rightarrow> JNull | Some s \<Rightarrow> JStr s)"
  by (simp add: getAccessToken_def getItem_def)

lemma apiFetch_request_authorization:
  assumes "Headers_new (opt_headers opts) = Inr hs"
    and "apiFetch_request plat url opts cfg w = Inr req"
  shows "headers_get (req_headers req) ''Authorization'' =
     (if config_auth cfg \<and> truthy (getAccessToken w)
      then Some (normalize_value (''Bearer '' @ js_string plat (getAccessToken w)))
      else headers_get hs ''Authorization'')"
proof -
  obtain h1 where h1: "(if hasBody opts \<and> \<not> is_FormData (opt_body opts) \<and> \<not> headers_has hs ''Content-Type''
                 then headers_set hs ''Content-Type'' ''application/json'' else Inr hs) = Inr h1"
    using content_type_step by blast
  have c1: "headers_get h1 ''Authorization'' = headers_get hs ''Authorization''"
  proof (cases "hasBody opts \<and> \<not> is_FormData (opt_body opts) \<and> \<not> headers_has hs ''Content-Type''")
    case True
    with h1 have "headers_set hs ''Content-Type'' ''application/json'' = Inr h1" by simp
    from headers_get_set_other [OF authorization_not_content_type(2) this] show ?thesis .
  next
    case False
    with h1 show ?thesis by auto
  qed
  obtain h2 where h2: "(if config_auth cfg \<and> truthy (getAccessToken w)
                      then headers_set h1 ''Authorization'' (''Bearer '' @ js_string plat (getAccessToken w))
                      else Inr h1) = Inr h2" and q: "req_headers req = h2"
    using assms h1 by (auto simp add: apiFetch_request_def split: sum.splits)
  show ?thesis
  proof (cases "config_auth cfg \<and> truthy (getAccessToken w)")
    case True
    with h2 have "headers_set h1 ''Authorization'' (''Bearer '' @ js_string plat (getAccessToken w)) = Inr h2"
      by simp
    from headers_get_set_same [OF this] True q show ?thesis by simp
  next
    case False
    with h2 q c1 show ?thesis by auto
  qed
qed

text \<open>
  Claim C6, as amended. Take a call with \<open>auth\<close> on and legal \<open>options.headers\<close>. When a
  non-empty access token is stored and \<open>Bearer\<close> with the token is a legal header value,
  the request is sent and carries it as \<open>Authorization\<close> (normalised as \<open>Headers.set\<close>
  does: white space at the end of the token is stripped). When the stored token makes no
  legal header value (a line feed inside it, say), the call throws \<open>TypeError\<close> and sends
  nothing. When no access token is stored, or the stored one is the empty string, the
  request is sent and the call adds no \<open>Authorization\<close> header: the request has the one of
  \<open>options.headers\<close>, if any.
\<close>

theorem apiFetch_bearer:
  assumes "config_auth cfg" and "Headers_new (opt_headers opts) = Inr hs"
  shows "(\<forall>t. localStorage w TOKEN_KEYS_access = Some t \<and> t \<noteq> []
              \<and> legal_value (normalize_value (''Bearer '' @ t)) \<longrightarrow>
          (\<exists>req es. apiFetch_request plat url opts cfg w = Inr req
             \<and> events_since w (snd (apiFetch plat url opts cfg w)) = Api_fetch req # es
             \<and> headers_get (req_headers req) ''Authorization'' = Some (normalize_value (''Bearer '' @ t))))
    \<and> (\<forall>t. localStorage w TOKEN_KEYS_access = Some t \<and> t \<noteq> []
              \<and> \<not> legal_value (normalize_value (''Bearer '' @ t)) \<longrightarrow>
          apiFetch plat url opts cfg w = (Inl TypeError, w))
    \<and> (localStorage w TOKEN_KEYS_access = None \<or> localStorage w TOKEN_KEYS_access = Some [] \<longrightarrow>
          (\<exists>req es. apiFetch_request plat url opts cfg w = Inr req
             \<and> events_since w (snd (apiFetch plat url opts cfg w)) = Api_fetch req # es
             \<and> headers_get (req_headers req) ''Authorization'' = headers_get hs ''Authorization''))"
proof -
  have a: "\<exists>req es. apiFetch_request plat url opts cfg w = Inr req
             \<and> events_since w (snd (apiFetch plat url opts cfg w)) = Api_fetch req # es
             \<and> headers_get (req_headers req) ''Authorization'' = Some (normalize_value (''Bearer '' @ t))"
    if t: "localStorage w TOKEN_KEYS_access = Some t" "t \<noteq> []"
      "legal_value (normalize_value (''Bearer '' @ t))" for t
  proof -
    from t have tok: "getAccessToken w = JStr t" "truthy (getAccessToken w)"
      by (simp_all add: getAccessToken_cases)
    with t(3) have "config_auth cfg \<and> truthy (getAccessToken w) \<longrightarrow>
         legal_value (normalize_value (''Bearer '' @ js_string plat (getAccessToken w)))"
      by (simp add: js_string_def)
    from apiFetch_request_builds [OF assms(2) this]
    obtain req where req: "apiFetch_request plat url opts cfg w = Inr req" by blast
    from apiFetch_request_authorization [OF assms(2) req] assms(1) tok
    have "headers_get (req_headers req) ''Authorization'' = Some (normalize_value (''Bearer '' @ t))"
      by (simp add: js_string_def)
    with req apiFetch_sends [OF req] show ?thesis by blast
  qed
  have b: "apiFetch plat url opts cfg w = (Inl TypeError, w)"
    if t: "localStorage w TOKEN_KEYS_access = Some t" "t \<noteq> []"
      "\<not> legal_value (normalize_value (''Bearer '' @ t))" for t
  proof -
    from t have tok: "getAccessToken w = JStr t" "truthy (getAccessToken w)"
      by (simp_all add: getAccessToken_cases)
    with t(3) have "\<not> legal_value (normalize_value (''Bearer '' @ js_string plat (getAccessToken w)))"
      by (simp add: js_string_def)
    from apiFetch_request_illegal [OF assms(2,1) tok(2) this] show ?thesis
      by (rule apiFetch_throws)
  qed
  have c: "\<exists>req es. apiFetch_request plat url opts cfg w = Inr req
             \<and> events_since w (snd (apiFetch plat url opts cfg w)) = Api_fetch req # es
             \<and> headers_get (req_headers req) ''Authorization'' = headers_get hs ''Authorization''"
    if "localStorage w TOKEN_KEYS_access = None \<or> localStorage w TOKEN_KEYS_access = Some []"
  proof -
    from that have tok: "\<not> truthy (getAccessToken w)"
      by (auto simp add: getAccessToken_cases)
    then have "config_auth cfg \<and> truthy (getAccessToken w) \<longrightarrow>
         legal_value (normalize_value (''Bearer '' @ js_string plat (getAccessToken w)))"
      by simp
    from apiFetch_request_builds [OF assms(2) this]
    obtain req where req: "apiFetch_request plat url opts cfg w = Inr req" by blast
    from apiFetch_request_authorization [OF assms(2) req] tok
    have "headers_get (req_headers req) ''Authorization'' = headers_get hs ''Authorization''"
      by simp
    with req apiFetch_sends [OF req] show ?thesis by blast
  qed
  from a b c show ?thesis by blast
qed

theorem apiFetch_bearer_witness:
  "config_auth with_auth \<and> Headers_new (opt_headers post_score) = Inr []
   \<and> localStorage logged_in TOKEN_KEYS_access = Some ''A''
   \<and> legal_value (normalize_value (''Bearer '' @ ''A''))
   \<and> normalize_value (''Bearer '' @ ''A'') = ''Bearer A''
   \<and> (\<exists>req es. apiFetch_request (answers [resp_ok]) ''/api/reminders/7'' post_score with_auth logged_in = Inr req
         \<and> events_since logged_in
              (snd (apiFetch (answers [resp_ok]) ''/api/reminders/7'' post_score with_auth logged_in))
             = Api_fetch req # es
         \<and> headers_get (req_headers req) ''Authorization'' = Some ''Bearer A'')"
proof -
  have h: "config_auth with_auth" by code_simp
  have h2: "Headers_new (opt_headers post_score) = Inr []" by code_simp
  have t: "localStorage logged_in TOKEN_KEYS_access = Some ''A''" by code_simp
  have l: "legal_value (normalize_value (''Bearer '' @ ''A''))" by code_simp
  have n: "normalize_value (''Bearer '' @ ''A'') = ''Bearer A''" by code_simp
  from apiFetch_bearer [OF h h2, of logged_in "answers [resp_ok]" "''/api/reminders/7''"] t l
  have "\<exists>req es. apiFetch_request (answers [resp_ok]) ''/api/reminders/7'' post_score with_auth logged_in = Inr req
         \<and> events_since logged_in
              (snd (apiFetch (answers [resp_ok]) ''/api/reminders/7'' post_score with_auth logged_in))
             = Api_fetch req # es
         \<and> headers_get (req_headers req) ''Authorization'' = Some (normalize_value (''Bearer '' @ ''A''))"
    by blast
  with h h2 t l n show ?thesis by simp
qed

text \<open>
  Claim C6 as stated fails. With the empty string stored as access token, the request has
  no \<open>Authorization\<close> header although a token is stored; with no token stored and an
  \<open>Authorization\<close> header in \<open>options.headers\<close>, the request is sent with that header;
  with a stored token that holds a line feed, the call throws before any request; and a
  stored token that ends in a blank is sent without the blank.
\<close>

theorem apiFetch_bearer_counterexample:
  "config_auth with_auth
   \<and> localStorage empty_access_token TOKEN_KEYS_access = Some []
   \<and> events_since empty_access_token
        (snd (apiFetch (answers [resp_ok]) ''/api/reminders/7'' post_score with_auth empty_access_token))
      = [Api_fetch \<lparr>req_url = ''/api/reminders/7'', req_method = Some ''POST'',
           req_headers = [(''Content-Type'', ''application/json'')],
           req_body = Body_text ''{\"assessment_id\":1,\"score\":7}''\<rparr>]
   \<and> localStorage logged_out TOKEN_KEYS_access = None
   \<and> events_since logged_out
        (snd (apiFetch (answers [resp_ok]) ''/api/reminders/7'' post_own_authorization with_auth logged_out))
      = [Api_fetch \<lparr>req_url = ''/api/reminders/7'', req_method = Some ''POST'',
           req_headers = [(''Authorization'', ''Basic dTpw''), (''Content-Type'', ''application/json'')],
           req_body = Body_text ''{\"reminder_type\":\"weekly_email\"}''\<rparr>]
   \<and> localStorage newline_token TOKEN_KEYS_access = Some [CHR ''A'', CHR 0x0A, CHR ''B'']
   \<and> apiFetch (answers [resp_ok]) ''/api/reminders/7'' post_score with_auth newline_token
      = (Inl TypeError, newline_token)
   \<and> events_since newline_token
        (snd (apiFetch (answers [resp_ok]) ''/api/reminders/7'' post_score with_auth newline_token)) = []
   \<and> localStorage trailing_space_token TOKEN_KEYS_access = Some ''A ''
   \<and> events_since trailing_space_token
        (snd (apiFetch (answers [resp_ok]) ''/api/reminders/7'' post_score with_auth trailing_space_token))
      = [Api_fetch \<lparr>req_url = ''/api/reminders/7'', req_method = Some ''POST'',
           req_headers = [(''Content-Type'', ''application/json''), (''Authorization'', ''Bearer A'')],
           req_body = Body_text ''{\"assessment_id\":1,\"score\":7}''\<rparr>]"
proof -
  have a: "config_auth with_auth" by code_simp
  have b: "localStorage empty_access_token TOKEN_KEYS_access = Some []" by code_simp
  have c: "events_since empty_access_token
        (snd (apiFetch (answers [resp_ok]) ''/api/reminders/7'' post_score with_auth empty_access_token))
      = [Api_fetch \<lparr>req_url = ''/api/reminders/7'', req_method = Some ''POST'',
           req_headers = [(''Content-Type'', ''application/json'')],
           req_body = Body_text ''{\"assessment_id\":1,\"score\":7}''\<rparr>]"
    by code_simp
  have d: "localStorage logged_out TOKEN_KEYS_access = None" by code_simp
  have e: "events_since logged_out
        (snd (apiFetch (answers [resp_ok]) ''/api/reminders/7'' post_own_authorization with_auth logged_out))
      = [Api_fetch \<lparr>req_url = ''/api/reminders/7'', req_method = Some ''POST'',
           req_headers = [(''Authorization'', ''Basic dTpw''), (''Content-Type'', ''application/json'')],
           req_body = Body_text ''{\"reminder_type\":\"weekly_email\"}''\<rparr>]"
    by code_simp
  have f: "localStorage newline_token TOKEN_KEYS_access = Some [CHR ''A'', CHR 0x0A, CHR ''B'']"
    by code_simp
  have r: "apiFetch_request (answers [resp_ok]) ''/api/reminders/7'' post_score with_auth newline_token
      = Inl TypeError"
    by code_simp
  have g: "apiFetch (answers [resp_ok]) ''/api/reminders/7'' post_score with_auth newline_token
      = (Inl TypeError, newline_token)"
    using r by (rule apiFetch_throws)
  have h: "events_since newline_token
        (snd (apiFetch (answers [resp_ok]) ''/api/reminders/7'' post_score with_auth newline_token)) = []"
    by (simp add: g events_since_def)
  have i: "localStorage trailing_space_token TOKEN_KEYS_access = Some ''A ''" by code_simp
  have j: "events_since trailing_space_token
        (snd (apiFetch (answers [resp_ok]) ''/api/reminders/7'' post_score with_auth trailing_space_token))
      = [Api_fetch \<lparr>req_url = ''/api/reminders/7'', req_method = Some ''POST'',
           req_headers = [(''Content-Type'', ''application/json''), (''Authorization'', ''Bearer A'')],
           req_body = Body_text ''{\"assessment_id\":1,\"score\":7}''\<rparr>]"
    by code_simp
  from a b c d e f g h i j show ?thesis by blast
qed

subsection \<open>Reading the response\<close>

text \<open>
  Claim C7, as amended. For a response the call settles on whose status is not 204: when
  the \<open>content-type\<close> header contains \<open>application/json\<close> the body is parsed as JSON
  (the call returns the parsed value, builds the error message from it, or throws the
  rejection of the parse), and otherwise the body is taken as text (returned as a string,
  or used for the error message).
\<close>

theorem apiFetch_reads_body:
  assumes "first_outcome plat url opts cfg w = Inr (Resolves r)" and "status r \<noteq> 204"
    and "\<not> enters_refresh_path plat url opts cfg w
         \<or> fst (refreshAccessToken plat (after_first_fetch plat url opts cfg w)) = Inr False"
  shows "(isJson r \<longrightarrow>
            fst (apiFetch plat url opts cfg w) =
              (case body_json r of
                 None \<Rightarrow> Inl SyntaxError
               | Some v \<Rightarrow> if ok r then Inr v else Inl (Error (js_string plat (error_message r v)))))
    \<and> (\<not> isJson r \<longrightarrow>
            fst (apiFetch plat url opts cfg w) =
              (if ok r then Inr (JStr (body_text r))
               else Inl (Error (js_string plat (error_message r (JStr (body_text r)))))))"
  using apiFetch_settles [OF assms(1,3)] assms(2)
  by (simp add: apiFetch_result_def response_data_def split: option.splits)

theorem apiFetch_reads_body_witness:
  "first_outcome (answers [resp_ok]) ''/api/intent'' post_score no_config logged_out = Inr (Resolves resp_ok)
   \<and> status resp_ok \<noteq> 204
   \<and> \<not> enters_refresh_path (answers [resp_ok]) ''/api/intent'' post_score no_config logged_out
   \<and> isJson resp_ok
   \<and> fst (apiFetch (answers [resp_ok]) ''/api/intent'' post_score no_config logged_out)
       = Inr (JObj [(''message'', JStr ''Score submitted.'')])"
proof -
  let ?P = "answers [resp_ok]"
  have h1: "first_outcome ?P ''/api/intent'' post_score no_config logged_out = Inr (Resolves resp_ok)"
    by code_simp
  have h2: "status resp_ok \<noteq> 204" by code_simp
  have h3: "\<not> enters_refresh_path ?P ''/api/intent'' post_score no_config logged_out"
    by code_simp
  have j: "isJson resp_ok" by code_simp
  have b: "body_json resp_ok = Some (JObj [(''message'', JStr ''Score submitted.'')])" by code_simp
  have o: "ok resp_ok" by code_simp
  from apiFetch_reads_body [OF h1 h2 disjI1 [OF h3]] j
  have "fst (apiFetch ?P ''/api/intent'' post_score no_config logged_out) =
      (case body_json resp_ok of
         None \<Rightarrow> Inl SyntaxError
       | Some v \<Rightarrow> if ok resp_ok then Inr v else Inl (Error (js_string ?P (error_message resp_ok v))))"
    by blast
  with b o have "fst (apiFetch ?P ''/api/intent'' post_score no_config logged_out)
       = Inr (JObj [(''message'', JStr ''Score submitted.'')])"
    by simp
  with h1 h2 h3 j show ?thesis by blast
qed

text \<open>
  Claim C7 as stated fails on a response with status 204: with a JSON content type its
  body is not parsed (the parse of the empty body would reject; the call returns
  \<open>null\<close>), and with no JSON content type the call returns \<open>null\<close>, not the text.
\<close>

theorem apiFetch_reads_body_counterexample:
  "isJson resp_no_content_json \<and> body_json resp_no_content_json = None
   \<and> fst (apiFetch (answers [resp_no_content_json]) ''/api/intent'' post_score no_config logged_out)
       = Inr JNull
   \<and> \<not> isJson resp_no_content \<and> body_text resp_no_content = []
   \<and> fst (apiFetch (answers [resp_no_content]) ''/api/intent'' post_score no_config logged_out)
       = Inr JNull"
  by code_simp

text \<open>
  Claim C8. A call whose request is answered with status 204 returns \<open>null\<close>; it
  throws nothing. (The retry after a refresh is such a call too.)
\<close>

theorem apiFetch_no_content:
  assumes "first_outcome plat url opts cfg w = Inr (Resolves r)" and "status r = 204"
  shows "fst (apiFetch plat url opts cfg w) = Inr JNull"
  using assms by (simp add: apiFetch_no_refresh apiFetch_result_def)

theorem apiFetch_no_content_witness:
  "first_outcome (answers [resp_no_content]) ''/api/reminders/7'' post_score with_auth logged_in = Inr (Resolves resp_no_content)
   \<and> status resp_no_content = 204
   \<and> fst (apiFetch (answers [resp_no_content]) ''/api/reminders/7'' post_score with_auth logged_in) = Inr JNull"
proof -
  have h1: "first_outcome (answers [resp_no_content]) ''/api/reminders/7'' post_score with_auth logged_in = Inr (Resolves resp_no_content)"
    by code_simp
  have h2: "status resp_no_content = 204" by code_simp
  from apiFetch_no_content [OF h1 h2] h1 h2 show ?thesis by blast
qed

subsection \<open>Token storage\<close>

lemma truthy_js_get: "truthy (js_get payload name) \<Longrightarrow> truthy payload"
  by (cases payload) simp_all

lemma token_keys_distinct:
  "TOKEN_KEYS_access \<noteq> TOKEN_KEYS_refresh" "TOKEN_KEYS_refresh \<noteq> TOKEN_KEYS_access"
  by (simp_all add: TOKEN_KEYS_access_def TOKEN_KEYS_refresh_def)

lemma storeTokens_trace: "trace (storeTokens plat payload w) = trace w"
  by (simp add: storeTokens_def setItem_def Let_def)

lemma storeTokens_storage:
  "localStorage (storeTokens plat payload w) k =
     (if k = TOKEN_KEYS_refresh \<and> truthy (js_get payload ''refresh_token'')
      then Some (js_string plat (js_get payload ''refresh_token''))
      else if k = TOKEN_KEYS_access \<and> truthy (js_get payload ''access_token'')
      then Some (js_string plat (js_get payload ''access_token''))
      else localStorage w k)"
  using truthy_js_get [of payload]
  by (auto simp add: storeTokens_def setItem_def Let_def)

text \<open>
  Claim C9, as amended. \<open>storeTokens\<close> writes a token only for a payload field that is
  truthy. A payload whose \<open>access_token\<close> is truthy and whose \<open>refresh_token\<close> is absent
  (or falsy) overwrites the stored access token and leaves everything else, so the stored
  refresh token, as it was; every key whose field is absent or falsy keeps its value; no
  stored key is ever removed. In particular a refresh that succeeds with a response that
  carries no \<open>refresh_token\<close> leaves the stored refresh token unchanged.
\<close>

theorem storeTokens_frame:
  "(truthy (js_get payload ''access_token'') \<and> \<not> truthy (js_get payload ''refresh_token'') \<longrightarrow>
      localStorage (storeTokens plat payload w) =
        (localStorage w)(TOKEN_KEYS_access \<mapsto> js_string plat (js_get payload ''access_token''))
    \<and> localStorage (storeTokens plat payload w) TOKEN_KEYS_refresh = localStorage w TOKEN_KEYS_refresh)
   \<and> (\<forall>k. \<not> (k = TOKEN_KEYS_access \<and> truthy (js_get payload ''access_token''))
          \<and> \<not> (k = TOKEN_KEYS_refresh \<and> truthy (js_get payload ''refresh_token'')) \<longrightarrow>
          localStorage (storeTokens plat payload w) k = localStorage w k)
   \<and> dom (localStorage w) \<subseteq> dom (localStorage (storeTokens plat payload w))
   \<and> (\<forall>res data. truthy (getRefreshToken w)
          \<and> fetch plat (length (filter is_fetch (trace w))) (refresh_request plat (getRefreshToken w))
              = Resolves res
          \<and> ok res \<and> body_json res = Some data \<and> \<not> truthy (js_get data ''refresh_token'') \<longrightarrow>
          localStorage (snd (refreshAccessToken plat w)) TOKEN_KEYS_refresh
            = localStorage w TOKEN_KEYS_refresh)"
proof -
  have a: "localStorage (storeTokens plat payload w) =
        (localStorage w)(TOKEN_KEYS_access \<mapsto> js_string plat (js_get payload ''access_token''))
    \<and> localStorage (storeTokens plat payload w) TOKEN_KEYS_refresh = localStorage w TOKEN_KEYS_refresh"
    if "truthy (js_get payload ''access_token'')" "\<not> truthy (js_get payload ''refresh_token'')"
    using that by (auto simp add: storeTokens_storage fun_eq_iff token_keys_distinct)
  have b: "localStorage (storeTokens plat payload w) k = localStorage w k"
    if "\<not> (k = TOKEN_KEYS_access \<and> truthy (js_get payload ''access_token''))"
       "\<not> (k = TOKEN_KEYS_refresh \<and> truthy (js_get payload ''refresh_token''))" for k
    using that by (auto simp add: storeTokens_storage)
  have c: "dom (localStorage w) \<subseteq> dom (localStorage (storeTokens plat payload w))"
    by (auto simp add: storeTokens_storage)
  have d: "localStorage (snd (refreshAccessToken plat w)) TOKEN_KEYS_refresh
            = localStorage w TOKEN_KEYS_refresh"
    if "truthy (getRefreshToken w)"
      "fetch plat (length (filter is_fetch (trace w))) (refresh_request plat (getRefreshToken w))
              = Resolves res"
      "ok res" "body_json res = Some data" "\<not> truthy (js_get data ''refresh_token'')" for res data
    using that
    by (simp add: refreshAccessToken_def Let_def call_fetch_def storeTokens_storage token_keys_distinct)
  from a b c d show ?thesis by blast
qed

theorem storeTokens_frame_witness:
  "truthy (js_get payload_new_access ''access_token'')
   \<and> \<not> truthy (js_get payload_new_access ''refresh_token'')
   \<and> localStorage (storeTokens (answers []) payload_new_access logged_in) TOKEN_KEYS_access = Some ''B''
   \<and> localStorage (storeTokens (answers []) payload_new_access logged_in) TOKEN_KEYS_refresh = Some ''R''"
proof -
  have h1: "truthy (js_get payload_new_access ''access_token'')" by code_simp
  have h2: "\<not> truthy (js_get payload_new_access ''refresh_token'')" by code_simp
  have v: "js_string (answers []) (js_get payload_new_access ''access_token'') = ''B''" by code_simp
  have r: "localStorage logged_in TOKEN_KEYS_refresh = Some ''R''" by code_simp
  from storeTokens_frame [of payload_new_access "answers []" logged_in] h1 h2
  have "localStorage (storeTokens (answers []) payload_new_access logged_in) =
        (localStorage logged_in)(TOKEN_KEYS_access \<mapsto>
           js_string (answers []) (js_get payload_new_access ''access_token''))
    \<and> localStorage (storeTokens (answers []) payload_new_access logged_in) TOKEN_KEYS_refresh
        = localStorage logged_in TOKEN_KEYS_refresh"
    by blast
  with v r have "localStorage (storeTokens (answers []) payload_new_access logged_in) TOKEN_KEYS_access = Some ''B''
    \<and> localStorage (storeTokens (answers []) payload_new_access logged_in) TOKEN_KEYS_refresh = Some ''R''"
    by (simp add: token_keys_distinct)
  with h1 h2 show ?thesis by blast
qed

text \<open>
  Claim C9 as stated fails for a payload that contains \<open>access_token\<close> with the empty
  string as value and no \<open>refresh_token\<close>: the stored access token is not overwritten.
\<close>

theorem storeTokens_frame_counterexample:
  "js_get payload_empty_access ''access_token'' = JStr []
   \<and> js_get payload_empty_access ''refresh_token'' = JUndefined
   \<and> localStorage logged_in TOKEN_KEYS_access = Some ''A''
   \<and> localStorage (storeTokens (answers []) payload_empty_access logged_in) TOKEN_KEYS_access = Some ''A''"
  by code_simp

text \<open>
  Claim C10. A call that does not enter the refresh path (\<open>fetch\<close> rejects, or the
  status is not 401, or \<open>auth\<close> is off, or \<open>retryOnUnauthorized\<close> is off) leaves the
  whole storage, so both tokens, as it was, and does not call \<open>refreshAccessToken\<close>, the
  only function of the call that writes to the storage.
\<close>

theorem apiFetch_storage_frame:
  assumes "\<not> enters_refresh_path plat url opts cfg w"
  shows "localStorage (snd (apiFetch plat url opts cfg w)) = localStorage w
    \<and> Refresh_called \<notin> set (events_since w (snd (apiFetch plat url opts cfg w)))"
proof -
  have "snd (apiFetch plat url opts cfg w) = after_first_fetch plat url opts cfg w"
  proof (cases "first_outcome plat url opts cfg w")
    case (Inl e)
    then have "apiFetch_request plat url opts cfg w = Inl e"
      by (simp add: first_outcome_def split: sum.splits)
    then show ?thesis by (simp add: apiFetch_throws after_first_fetch_def)
  next
    case (Inr out)
    with assms show ?thesis
      by (cases out) (simp_all add: apiFetch_no_refresh apiFetch_Rejects enters_refresh_path_def)
  qed
  then show ?thesis
    by (simp add: after_first_fetch_storage events_since_def after_first_fetch_trace in_sent)
qed

theorem apiFetch_storage_frame_witness:
  "\<not> enters_refresh_path (answers [resp_401]) ''/api/intent'' post_score no_config logged_in
   \<and> localStorage (snd (apiFetch (answers [resp_401]) ''/api/intent'' post_score no_config logged_in))
       = localStorage logged_in
   \<and> Refresh_called \<notin> set (events_since logged_in
        (snd (apiFetch (answers [resp_401]) ''/api/intent'' post_score no_config logged_in)))"
proof -
  have h: "\<not> enters_refresh_path (answers [resp_401]) ''/api/intent'' post_score no_config logged_in"
    by code_simp
  from apiFetch_storage_frame [OF h] h show ?thesis by blast
qed

section \<open>Properties of the scoring service\<close>

lemma find_in_band:
  "\<exists>b\<in>set bs. in_band t b \<Longrightarrow> \<exists>b. find (in_band t) bs = Some b"
  by (cases "find (in_band t) bs") (auto simp: find_None_iff)

text \<open>
  Claim C4, as amended. For a valid submission (as many responses as questions, each
  within the scale) to an assessment with at least one question, one of whose bands
  contains the total, \<open>score\<close> returns a result: its total is the sum of the responses,
  its maximum is the number of questions times \<open>scale.max\<close>, and its average is the total
  divided by the number of questions as a fraction, nothing truncated: times the number of
  questions it gives the total back.
\<close>

theorem score_totals:
  assumes "length responses = length (questions d)"
    and "list_all (in_scale (assessment_scale d)) responses"
    and "questions d \<noteq> []"
    and "\<exists>b\<in>set (bands d). in_band (sum_list responses) b"
  shows "\<exists>res. score d responses = Inr res
    \<and> total res = sum_list responses
    \<and> max_score res = int (length (questions d)) * scale_max (assessment_scale d)
    \<and> average res = of_int (sum_list responses) / of_nat (length (questions d))
    \<and> average res * of_nat (length (questions d)) = of_int (total res)"
proof -
  from assms(4) obtain b where "find (in_band (sum_list responses)) (bands d) = Some b"
    using find_in_band by blast
  with assms(1,2,3) show ?thesis
    by (simp add: score_def Let_def)
qed

theorem score_totals_witness:
  "length [5, 5 :: int] = length (questions two_questions)
   \<and> list_all (in_scale (assessment_scale two_questions)) [5, 5]
   \<and> questions two_questions \<noteq> []
   \<and> (\<exists>b\<in>set (bands two_questions). in_band (sum_list [5, 5]) b)
   \<and> (\<exists>res. score two_questions [5, 5] = Inr res
        \<and> total res = 10 \<and> max_score res = 10 \<and> average res = 5)"
proof -
  have h1: "length [5, 5 :: int] = length (questions two_questions)" by code_simp
  have h2: "list_all (in_scale (assessment_scale two_questions)) [5, 5]" by code_simp
  have h3: "questions two_questions \<noteq> []" by code_simp
  have h4: "\<exists>b\<in>set (bands two_questions). in_band (sum_list [5, 5]) b" by code_simp
  have q: "length (questions two_questions) = 2" "scale_max (assessment_scale two_questions) = 5"
    by code_simp+
  from score_totals [OF h1 h2 h3 h4] obtain res where
    "score two_questions [5, 5] = Inr res" "total res = sum_list [5, 5]"
    "max_score res = int (length (questions two_questions)) * scale_max (assessment_scale two_questions)"
    "average res = of_int (sum_list [5, 5]) / of_nat (length (questions two_questions))"
    by blast
  with q have "score two_questions [5, 5] = Inr res \<and> total res = 10 \<and> max_score res = 10 \<and> average res = 5"
    by simp
  with h1 h2 h3 h4 show ?thesis by blast
qed

text \<open>
  Claim C4 as stated fails for a valid submission to an assessment none of whose bands
  contains the total (\<open>score\<close> fails with \<open>ConfigurationError\<close>), and for the empty
  submission to an assessment with no question (the average has no value).
\<close>

theorem score_totals_counterexample:
  "length [5, 5 :: int] = length (questions no_bands)
   \<and> list_all (in_scale (assessment_scale no_bands)) [5, 5]
   \<and> score no_bands [5, 5] = Inl ConfigurationError
   \<and> length ([] :: int list) = length (questions no_questions)
   \<and> list_all (in_scale (assessment_scale no_questions)) []
   \<and> score no_questions [] = Inl DivisionByZero"
  by code_simp

end
